theory Spec2Isabelle
  imports Complex_Main "HOL-Library.AList" "HOL-Library.Sublist"
begin

section \<open>JavaScript numbers\<close>

text \<open>
  A JavaScript number is an IEEE 754 double: NaN, one of the two infinities, or a
  finite value. A finite value is held as the real it denotes; the two zeros are not
  told apart.
\<close>

datatype number = NaN | PInf | NInf | Fin real

definition signed_inf :: "bool \<Rightarrow> number" where
  "signed_inf neg = (if neg then NInf else PInf)"

text \<open>
  Rounding of a real to the nearest double, ties to the even significand. The
  significand has 53 bits, so the spacing of the doubles around \<open>x\<close> is \<open>2\<close> to the
  power \<open>quantum x\<close>, which is never less than \<open>-1074\<close> (the subnormal numbers); a
  result of magnitude \<open>2 ^ 1024\<close> or more is an infinity.
\<close>

definition round_even :: "real \<Rightarrow> int" where
  "round_even y =
     (let f = \<lfloor>y\<rfloor>; d = y - of_int f
      in if d < 1 / 2 then f else if 1 / 2 < d then f + 1 else if even f then f else f + 1)"

definition quantum :: "real \<Rightarrow> int" where
  "quantum x = max (\<lfloor>log 2 \<bar>x\<bar>\<rfloor> - 52) (- 1074)"

definition to_double :: "real \<Rightarrow> number" where
  "to_double x =
     (if x = 0 then Fin 0
      else
        let e = quantum x;
            y = of_int (round_even (x / 2 powr of_int e)) * 2 powr of_int e
        in if 2 powr 1024 \<le> \<bar>y\<bar> then signed_inf (x < 0) else Fin y)"

text \<open>
  The arithmetic operators of the language: IEEE 754 on the special values, and the
  exact result rounded to a double on finite operands.
\<close>

fun num_add :: "number \<Rightarrow> number \<Rightarrow> number" where
  "num_add NaN _ = NaN"
| "num_add _ NaN = NaN"
| "num_add PInf NInf = NaN"
| "num_add NInf PInf = NaN"
| "num_add PInf _ = PInf"
| "num_add _ PInf = PInf"
| "num_add NInf _ = NInf"
| "num_add _ NInf = NInf"
| "num_add (Fin a) (Fin b) = to_double (a + b)"

fun num_neg :: "number \<Rightarrow> number" where
  "num_neg NaN = NaN"
| "num_neg PInf = NInf"
| "num_neg NInf = PInf"
| "num_neg (Fin a) = Fin (- a)"

text \<open>The sign of a number that is not NaN: \<open>True\<close> for a negative one.\<close>

fun negative :: "number \<Rightarrow> bool" where
  "negative NInf = True"
| "negative (Fin a) = (a < 0)"
| "negative _ = False"

fun num_mul :: "number \<Rightarrow> number \<Rightarrow> number" where
  "num_mul NaN _ = NaN"
| "num_mul _ NaN = NaN"
| "num_mul (Fin a) (Fin b) = to_double (a * b)"
| "num_mul (Fin a) y = (if a = 0 then NaN else signed_inf (negative (Fin a) \<noteq> negative y))"
| "num_mul x (Fin b) = (if b = 0 then NaN else signed_inf (negative x \<noteq> negative (Fin b)))"
| "num_mul x y = signed_inf (negative x \<noteq> negative y)"

fun num_div :: "number \<Rightarrow> number \<Rightarrow> number" where
  "num_div NaN _ = NaN"
| "num_div _ NaN = NaN"
| "num_div (Fin a) (Fin b) =
     (if b = 0 then (if a = 0 then NaN else signed_inf (a < 0)) else to_double (a / b))"
| "num_div (Fin a) y = Fin 0"
| "num_div x (Fin b) = signed_inf (negative x \<noteq> negative (Fin b))"
| "num_div x y = NaN"

text \<open>\<open>Math.PI\<close>, the double nearest to \<open>pi\<close>: 3.141592653589793.\<close>

definition Math_PI :: number where
  "Math_PI = Fin (884279719003555 / 281474976710656)"

text \<open>The comparisons \<open><\<close> and \<open>>=\<close>: both are false as soon as an operand is NaN.\<close>

fun num_lt :: "number \<Rightarrow> number \<Rightarrow> bool" where
  "num_lt NaN _ = False"
| "num_lt _ NaN = False"
| "num_lt (Fin a) (Fin b) = (a < b)"
| "num_lt NInf y = (y \<noteq> NInf)"
| "num_lt x PInf = (x \<noteq> PInf)"
| "num_lt x y = False"

fun num_ge :: "number \<Rightarrow> number \<Rightarrow> bool" where
  "num_ge NaN _ = False"
| "num_ge _ NaN = False"
| "num_ge (Fin a) (Fin b) = (a \<ge> b)"
| "num_ge PInf y = True"
| "num_ge x NInf = True"
| "num_ge x y = False"

text \<open>
  The values a parsed JSON document is made of, and \<open>undefined\<close>, which reading a
  missing property yields. An object is the list of its own properties.
\<close>

datatype jsval =
    Undefined
  | Null
  | Bool bool
  | Num number
  | Str string
  | Arr "jsval list"
  | Obj "(string \<times> jsval) list"

section \<open>The engine and the conversions of the language\<close>

text \<open>
  Three built-in functions of the engine are parameters of the model: \<open>Math.cos\<close>,
  whose result the language leaves to the implementation, and the two conversions
  between numbers and strings (\<open>Number::toString\<close> and \<open>StringToNumber\<close>). Nothing is
  assumed of them.
\<close>

record engine =
  math_cos :: "number \<Rightarrow> number"
  number_to_string :: "number \<Rightarrow> string"
  string_to_number :: "string \<Rightarrow> number"

text \<open>The primitive values, to which an operand of \<open>+\<close> is converted first.\<close>

datatype prim = PUndefined | PNull | PBool bool | PNum number | PStr string

fun prim_to_string :: "engine \<Rightarrow> prim \<Rightarrow> string" where
  "prim_to_string eng PUndefined = ''undefined''"
| "prim_to_string eng PNull = ''null''"
| "prim_to_string eng (PBool b) = (if b then ''true'' else ''false'')"
| "prim_to_string eng (PNum n) = number_to_string eng n"
| "prim_to_string eng (PStr s) = s"

fun prim_to_number :: "engine \<Rightarrow> prim \<Rightarrow> number" where
  "prim_to_number eng PUndefined = NaN"
| "prim_to_number eng PNull = Fin 0"
| "prim_to_number eng (PBool b) = Fin (if b then 1 else 0)"
| "prim_to_number eng (PNum n) = n"
| "prim_to_number eng (PStr s) = string_to_number eng s"

text \<open>
  \<open>Array.prototype.join\<close> with a comma, on the strings of the elements; \<open>None\<close> is a
  \<open>TypeError\<close> thrown while an element is converted.
\<close>

fun join :: "string option list \<Rightarrow> string option" where
  "join [] = Some []"
| "join [s] = s"
| "join (s # rest) =
     (case s of
        None \<Rightarrow> None
      | Some a \<Rightarrow> (case join rest of None \<Rightarrow> None | Some b \<Rightarrow> Some (a @ '','' @ b)))"

text \<open>
  The string of a value of a parsed document. An array is joined, with the empty
  string for \<open>null\<close> and \<open>undefined\<close> elements. An object is \<open>[object Object]\<close>, unless
  it has an own property \<open>toString\<close>: that property is not callable, the inherited
  \<open>valueOf\<close> returns the object itself, and the conversion throws.
\<close>

fun to_string :: "engine \<Rightarrow> jsval \<Rightarrow> string option" where
  "to_string eng Undefined = Some ''undefined''"
| "to_string eng Null = Some ''null''"
| "to_string eng (Bool b) = Some (if b then ''true'' else ''false'')"
| "to_string eng (Num n) = Some (number_to_string eng n)"
| "to_string eng (Str s) = Some s"
| "to_string eng (Arr xs) =
     join (map (\<lambda>x. if x = Undefined \<or> x = Null then Some [] else to_string eng x) xs)"
| "to_string eng (Obj props) =
     (if ''toString'' \<in> fst ` set props then None else Some ''[object Object]'')"

text \<open>\<open>ToPrimitive\<close>: an array or an object becomes its string.\<close>

fun to_primitive :: "engine \<Rightarrow> jsval \<Rightarrow> prim option" where
  "to_primitive eng Undefined = Some PUndefined"
| "to_primitive eng Null = Some PNull"
| "to_primitive eng (Bool b) = Some (PBool b)"
| "to_primitive eng (Num n) = Some (PNum n)"
| "to_primitive eng (Str s) = Some (PStr s)"
| "to_primitive eng v = map_option PStr (to_string eng v)"

fun is_string :: "prim \<Rightarrow> bool" where
  "is_string (PStr s) = True"
| "is_string _ = False"

text \<open>
  The operator \<open>+\<close> with a primitive on the left: when either side is a string the
  two strings are concatenated, otherwise the two numbers are added.
\<close>

definition plus_op :: "engine \<Rightarrow> prim \<Rightarrow> jsval \<Rightarrow> prim option" where
  "plus_op eng p c =
     (case to_primitive eng c of
        None \<Rightarrow> None
      | Some r \<Rightarrow>
          Some (if is_string p \<or> is_string r
                then PStr (prim_to_string eng p @ prim_to_string eng r)
                else PNum (num_add (prim_to_number eng p) (prim_to_number eng r))))"

section \<open>The index aggregator\<close>

text \<open>\<open>arr.reduce((p, c) => p + c, 0)\<close>, with the accumulator \<open>p\<close> as first argument.\<close>

fun reduce_plus :: "engine \<Rightarrow> prim \<Rightarrow> jsval list \<Rightarrow> prim option" where
  "reduce_plus eng p [] = Some p"
| "reduce_plus eng p (c # cs) =
     (case plus_op eng p c of None \<Rightarrow> None | Some p' \<Rightarrow> reduce_plus eng p' cs)"

text \<open>\<open>average\<close>; \<open>None\<close> is the \<open>TypeError\<close> of a conversion.\<close>

definition average :: "engine \<Rightarrow> jsval list \<Rightarrow> number option" where
  "average eng arr =
     (case reduce_plus eng (PNum (Fin 0)) arr of
        None \<Rightarrow> None
      | Some s \<Rightarrow> Some (num_div (prim_to_number eng s) (Fin (real (length arr)))))"

text \<open>
  The five \<open>if\<close> statements that follow \<open>let qualitativeName\<close>: each one is evaluated,
  in the order of the source, and overwrites what an earlier one assigned.
\<close>

definition qualitative :: "number \<Rightarrow> string option" where
  "qualitative aqi =
     (let q0 = None;
          q1 = (if num_ge aqi (Fin 100) then Some ''very_high'' else q0);
          q2 = (if num_lt aqi (Fin 100) then Some ''high'' else q1);
          q3 = (if num_lt aqi (Fin 75) then Some ''medium'' else q2);
          q4 = (if num_lt aqi (Fin 50) then Some ''low'' else q3);
          q5 = (if num_lt aqi (Fin 25) then Some ''very_low'' else q4)
      in q5)"

text \<open>
  The bands as the specification words them, as mutually exclusive ranges; this
  definition follows the specification, not the source, and is compared with
  \<open>qualitative\<close> below.
\<close>

definition band_by_range :: "number \<Rightarrow> string option" where
  "band_by_range v =
     (if v = NaN then None
      else if num_ge v (Fin 100) then Some ''very_high''
      else if num_ge v (Fin 75) \<and> num_lt v (Fin 100) then Some ''high''
      else if num_ge v (Fin 50) \<and> num_lt v (Fin 75) then Some ''medium''
      else if num_ge v (Fin 25) \<and> num_lt v (Fin 50) then Some ''low''
      else if num_lt v (Fin 25) then Some ''very_low''
      else None)"

text \<open>One entry of the response data, \<open>{unit, value}\<close>, and the \<open>aqi\<close> entry.\<close>

record entry =
  e_unit :: jsval
  e_value :: jsval

record air_quality =
  qualitativeName :: "string option"
  aqi_value :: number

text \<open>
  What a piece of the handler does: it returns or it throws. A thrown error is known
  by its message; the message of a \<open>TypeError\<close> raised by the engine itself is the
  engine's own.
\<close>

datatype thrown = Message string | Engine_type_error

datatype 'a outcome = Returns 'a | Throws thrown

text \<open>
  The aggregation in \<open>handle\<close>, from \<open>const average\<close> to the \<open>aqi\<close> entry: the four
  designated values are read from the response data (reading \<open>.value\<close> of a missing
  entry throws), averaged and classified.
\<close>

definition aggregate :: "engine \<Rightarrow> (string \<times> entry) list \<Rightarrow> air_quality outcome" where
  "aggregate eng responseData =
     (case map_of responseData ''NO2'' of None \<Rightarrow> Throws Engine_type_error | Some no2 \<Rightarrow>
     (case map_of responseData ''PM10'' of None \<Rightarrow> Throws Engine_type_error | Some pm10 \<Rightarrow>
     (case map_of responseData ''O3'' of None \<Rightarrow> Throws Engine_type_error | Some o3 \<Rightarrow>
     (case map_of responseData ''PM2.5'' of None \<Rightarrow> Throws Engine_type_error | Some pm25 \<Rightarrow>
     (case average eng [e_value no2, e_value pm10, e_value o3, e_value pm25] of
        None \<Rightarrow> Throws Engine_type_error
      | Some aqi \<Rightarrow> Returns \<lparr>qualitativeName = qualitative aqi, aqi_value = aqi\<rparr>)))))"

section \<open>Geo-offset and bounding box\<close>

text \<open>
  \<open>offset([long, lat], dn, de)\<close>. Both callers pass \<open>dn\<close> and \<open>de\<close>, so the default
  values of the two parameters never apply.
\<close>

definition offset :: "engine \<Rightarrow> number \<times> number \<Rightarrow> number \<Rightarrow> number \<Rightarrow> number \<times> number" where
  "offset eng coord dn de =
     (case coord of (long, lat) \<Rightarrow>
        let R = Fin 6378137;
            dLat = num_div dn R;
            dLon = num_div de (num_mul R (math_cos eng (num_div (num_mul Math_PI lat) (Fin 180))));
            latO = num_add lat (num_div (num_mul dLat (Fin 180)) Math_PI);
            lonO = num_add long (num_div (num_mul dLon (Fin 180)) Math_PI)
        in (lonO, latO))"

text \<open>The first lines of \<open>get\<close>: the two corners and the \<open>bbox\<close> array.\<close>

definition bbox :: "engine \<Rightarrow> number \<times> number \<Rightarrow> number list" where
  "bbox eng coord =
     (let radius = Fin 5000;
          (longNW, latNW) = offset eng coord (num_neg radius) (num_neg radius);
          (longSE, latSE) = offset eng coord radius radius
      in [latNW, longNW, latSE, longSE])"

section \<open>The layer query\<close>

definition atmosphereTypeToLayer :: "(string \<times> string) list" where
  "atmosphereTypeToLayer =
     [(''Pollen-Birch'', ''composition_europe_pol_birch_forecast_surface''),
      (''CO'', ''composition_europe_co_forecast_surface''),
      (''Pollen-Grass'', ''composition_europe_pol_grass_forecast_surface''),
      (''NH3'', ''composition_europe_nh3_forecast_surface''),
      (''NMVOC'', ''composition_europe_nmvoc_forecast_surface''),
      (''NO'', ''composition_europe_no_forecast_surface''),
      (''NO2'', ''composition_europe_no2_forecast_surface''),
      (''O3'', ''composition_europe_o3_forecast_surface''),
      (''PANs'', ''composition_europe_pans_forecast_surface''),
      (''PM10'', ''composition_europe_pm10_forecast_surface''),
      (''PM2.5'', ''composition_europe_pm2p5_forecast_surface''),
      (''SO2'', ''composition_europe_so2_forecast_surface'')]"

text \<open>
  The value of a search parameter, as text: a string of the source, the comma-joined
  rendering of an array of numbers (\<open>bbox.join(',')\<close>), or the engine's rendering of a
  member that an object literal inherits from \<open>Object.prototype\<close>.
\<close>

datatype param = Text string | Joined "number list" | Inherited string

definition object_prototype_names :: "string list" where
  "object_prototype_names =
     [''constructor'', ''__defineGetter__'', ''__defineSetter__'', ''hasOwnProperty'',
      ''__lookupGetter__'', ''__lookupSetter__'', ''isPrototypeOf'',
      ''propertyIsEnumerable'', ''toString'', ''valueOf'', ''__proto__'',
      ''toLocaleString'']"

text \<open>
  \<open>atmosphereTypeToLayer[type]\<close>, converted to the string that \<open>searchParams.set\<close>
  stores. A name that is no property of the catalog reads as \<open>undefined\<close>, which is
  stored as the text \<open>undefined\<close>; nothing is thrown.
\<close>

definition layer_param :: "string \<Rightarrow> param" where
  "layer_param type =
     (case map_of atmosphereTypeToLayer type of
        Some layer \<Rightarrow> Text layer
      | None \<Rightarrow> if type \<in> set object_prototype_names then Inherited type
                else Text ''undefined'')"

record url =
  href :: string
  searchParams :: "(string \<times> param) list"

text \<open>
  \<open>searchParams.set\<close> replaces the value of a name that is present and appends the
  pair otherwise. The calls are listed in the order of the source.
\<close>

definition get_url :: "engine \<Rightarrow> number \<times> number \<Rightarrow> string \<Rightarrow> url" where
  "get_url eng coord type =
     (let layer = layer_param type in
      \<lparr>href = ''https://apps.ecmwf.int/wms/'',
       searchParams = fold (\<lambda>(name, v). AList.update name v)
         [(''service'', Text ''wms''),
          (''version'', Text ''1.3.0''),
          (''request'', Text ''GetFeatureInfo''),
          (''token'', Text ''public''),
          (''layers'', layer),
          (''query_layers'', layer),
          (''info_format'', Text ''application/json''),
          (''elevation'', Text ''0''),
          (''crs'', Text ''EPSG:4326''),
          (''bbox'', Joined (bbox eng coord)),
          (''width'', Text ''200''),
          (''height'', Text ''200''),
          (''x'', Text ''100''),
          (''y'', Text ''100'')] []\<rparr>)"

section \<open>Fetching one layer\<close>

text \<open>
  What \<open>fetch\<close> gives for one call: a rejection (transport failure, with the engine's
  message), or a response with its status and the result of \<open>response.json()\<close>, where
  \<open>None\<close> is a body that does not parse.
\<close>

datatype fetch_result = Transport_failure string | Http nat "jsval option"

definition ok :: "nat \<Rightarrow> bool" where
  "ok st = (200 \<le> st \<and> st \<le> 299)"

text \<open>
  Property reads on a parsed document; \<open>None\<close> is the \<open>TypeError\<close> of reading a
  property of \<open>null\<close> or \<open>undefined\<close>. \<open>get_prop\<close> is used for the names \<open>Probes\<close>,
  \<open>Value\<close>, \<open>Data\<close> and \<open>Unit\<close> only, which no prototype defines.
\<close>

fun get_prop :: "jsval \<Rightarrow> string \<Rightarrow> jsval option" where
  "get_prop Undefined name = None"
| "get_prop Null name = None"
| "get_prop (Obj props) name =
     Some (case map_of props name of None \<Rightarrow> Undefined | Some v \<Rightarrow> v)"
| "get_prop _ name = Some Undefined"

text \<open>The read \<open>x[0]\<close>.\<close>

fun get_index0 :: "jsval \<Rightarrow> jsval option" where
  "get_index0 Undefined = None"
| "get_index0 Null = None"
| "get_index0 (Arr xs) = Some (case xs of [] \<Rightarrow> Undefined | x # _ \<Rightarrow> x)"
| "get_index0 (Str s) = Some (case s of [] \<Rightarrow> Undefined | c # _ \<Rightarrow> Str [c])"
| "get_index0 (Obj props) =
     Some (case map_of props ''0'' of None \<Rightarrow> Undefined | Some v \<Rightarrow> v)"
| "get_index0 _ = Some Undefined"

text \<open>\<open>json.Probes[0].Value\<close>, and the member of it that the reading takes.\<close>

definition probe_value :: "jsval \<Rightarrow> jsval option" where
  "probe_value json =
     (case get_prop json ''Probes'' of None \<Rightarrow> None | Some probes \<Rightarrow>
     (case get_index0 probes of None \<Rightarrow> None | Some probe \<Rightarrow> get_prop probe ''Value''))"

definition probe_member :: "jsval \<Rightarrow> string \<Rightarrow> jsval option" where
  "probe_member json name =
     (case probe_value json of None \<Rightarrow> None | Some v \<Rightarrow> get_prop v name)"

record reading =
  r_type :: string
  r_value :: jsval
  r_unit :: jsval

text \<open>
  \<open>get\<close>. The network is a function from the query to the time at which the call
  settles and to what it gives. The result is the time at which the promise of \<open>get\<close>
  settles and its outcome: \<open>Inl\<close> is a rejection.
\<close>

definition get ::
  "engine \<Rightarrow> (url \<Rightarrow> nat \<times> fetch_result) \<Rightarrow> number \<times> number \<Rightarrow> string
     \<Rightarrow> nat \<times> (thrown + reading)" where
  "get eng fetch coord type =
     (case fetch (get_url eng coord type) of (settled, result) \<Rightarrow>
        (settled,
         case result of
           Transport_failure msg \<Rightarrow> Inl (Message msg)
         | Http st body \<Rightarrow>
             if \<not> ok st then Inl (Message ''Could not fetch data'')
             else Inr
               (case body of
                  None \<Rightarrow> \<lparr>r_type = type, r_value = Null, r_unit = Null\<rparr>
                | Some json \<Rightarrow>
                   (case probe_member json ''Data'' of
                      None \<Rightarrow> \<lparr>r_type = type, r_value = Null, r_unit = Null\<rparr>
                    | Some data \<Rightarrow>
                       (case probe_member json ''Unit'' of
                          None \<Rightarrow> \<lparr>r_type = type, r_value = Null, r_unit = Null\<rparr>
                        | Some u \<Rightarrow> \<lparr>r_type = type, r_value = data, r_unit = u\<rparr>)))))"

section \<open>Fetching the twelve layers\<close>

text \<open>
  \<open>Promise.all\<close>: it fulfils with the values, in the order of the promises, when none
  rejects, and rejects with the reason of the promise that rejects first in time.
\<close>

fun earliest :: "nat \<times> 'e \<Rightarrow> (nat \<times> 'e) list \<Rightarrow> 'e" where
  "earliest (t, e) [] = e"
| "earliest (t, e) ((t', e') # rest) =
     (if t' < t then earliest (t', e') rest else earliest (t, e) rest)"

definition promise_all :: "(nat \<times> ('e + 'a)) list \<Rightarrow> 'e + 'a list" where
  "promise_all ps =
     (case List.map_filter (\<lambda>(t, r). case r of Inl e \<Rightarrow> Some (t, e) | Inr _ \<Rightarrow> None) ps of
        [] \<Rightarrow> Inr (List.map_filter (\<lambda>(t, r). case r of Inl _ \<Rightarrow> None | Inr v \<Rightarrow> Some v) ps)
      | first # rest \<Rightarrow> Inl (earliest first rest))"

definition keys :: "string list" where
  "keys = map fst atmosphereTypeToLayer"

definition getAll ::
  "engine \<Rightarrow> (url \<Rightarrow> nat \<times> fetch_result) \<Rightarrow> number \<times> number \<Rightarrow> thrown + reading list" where
  "getAll eng fetch coords = promise_all (map (\<lambda>type. get eng fetch coords type) keys)"

section \<open>Request parameters\<close>

text \<open>
  \<open>parseFloat\<close>: leading white space is skipped, then the longest prefix that is a
  decimal literal is read (an optional sign, then \<open>Infinity\<close> or digits with an
  optional fraction and an optional exponent) and its value is rounded to a double;
  the result is NaN when there is no such prefix. A character stands for one code unit
  below 256.
\<close>

definition is_space :: "char \<Rightarrow> bool" where
  "is_space c = (c \<in> set [CHR 0x09, CHR 0x0A, CHR 0x0B, CHR 0x0C, CHR 0x0D, CHR 0x20, CHR 0xA0])"

definition is_digit :: "char \<Rightarrow> bool" where
  "is_digit c = (c \<in> set ''0123456789'')"

definition digits_value :: "string \<Rightarrow> nat" where
  "digits_value ds = foldl (\<lambda>n c. 10 * n + (of_char c - 48)) 0 ds"

text \<open>The exponent part, if the text starts with a complete one, else 0.\<close>

definition exponent :: "string \<Rightarrow> int" where
  "exponent s =
     (case s of
        [] \<Rightarrow> 0
      | c # r \<Rightarrow>
          if c = CHR ''e'' \<or> c = CHR ''E'' then
            (case r of
               [] \<Rightarrow> 0
             | d # r' \<Rightarrow>
                 if d = CHR ''-'' then - int (digits_value (takeWhile is_digit r'))
                 else if d = CHR ''+'' then int (digits_value (takeWhile is_digit r'))
                 else int (digits_value (takeWhile is_digit r)))
          else 0)"

definition scale :: "real \<Rightarrow> int \<Rightarrow> real" where
  "scale m ex = (if 0 \<le> ex then m * 10 ^ nat ex else m / 10 ^ nat (- ex))"

text \<open>The text after the leading white space and the sign, if there is one.\<close>

definition unsigned_part :: "string \<Rightarrow> string" where
  "unsigned_part s =
     (case dropWhile is_space s of
        [] \<Rightarrow> []
      | c # r \<Rightarrow> if c = CHR ''-'' \<or> c = CHR ''+'' then r else c # r)"

definition parseFloat :: "string \<Rightarrow> number" where
  "parseFloat s =
     (let neg = (case dropWhile is_space s of [] \<Rightarrow> False | c # _ \<Rightarrow> c = CHR ''-'');
          u = unsigned_part s
      in if prefix ''Infinity'' u then signed_inf neg
         else
           let ip = takeWhile is_digit u;
               r1 = dropWhile is_digit u;
               dot = (case r1 of [] \<Rightarrow> False | c # _ \<Rightarrow> c = CHR ''.'');
               fp = (if dot then takeWhile is_digit (tl r1) else []);
               r2 = (if dot then dropWhile is_digit (tl r1) else r1)
           in if ip = [] \<and> fp = [] then NaN
              else
                let m = to_double (scale (real (digits_value (ip @ fp)))
                                     (exponent r2 - int (length fp)))
                in if neg then num_neg m else m)"

text \<open>
  The request: the pairs of the query string, as \<open>url.searchParams\<close> holds them, and
  the \<open>origin\<close> header. \<open>searchParams.get\<close> returns the first value of a name, or
  \<open>null\<close>, which \<open>parseFloat\<close> reads as the text \<open>null\<close>.
\<close>

record request =
  query :: "(string \<times> string) list"
  origin :: "string option"

definition search_param :: "request \<Rightarrow> string \<Rightarrow> string" where
  "search_param req name = (case map_of (query req) name of None \<Rightarrow> ''null'' | Some v \<Rightarrow> v)"

section \<open>Responses\<close>

text \<open>
  The payload is the response data with the \<open>aqi\<close> entry added; the body of a
  response is a text, the engine's text of a \<open>TypeError\<close>, or the payload as
  \<open>JSON.stringify\<close> writes it with the given indentation. The value of a header is a
  text of the source or the \<open>toUTCString\<close> rendering of a time in whole seconds.
\<close>

datatype payload_entry = Layer entry | Index air_quality

datatype body =
    Plain string
  | Engine_text
  | Json "(string \<times> payload_entry) list" "nat option"

datatype header_value = Literal string | Utc_string int

record response =
  status :: nat
  headers :: "(string \<times> header_value) list"
  content :: body

text \<open>
  \<open>new Response(body, {status, headers})\<close>. Every body here is a string, for which the
  constructor adds a content type when the headers give none.
\<close>

definition new_response :: "body \<Rightarrow> nat \<Rightarrow> (string \<times> header_value) list \<Rightarrow> response" where
  "new_response b st hs =
     \<lparr>status = st,
      headers = (if map_of hs ''content-type'' = None
                 then hs @ [(''content-type'', Literal ''text/plain;charset=UTF-8'')]
                 else hs),
      content = b\<rparr>"

text \<open>
  \<open>response.headers.set\<close>. Header names compare without regard to case; the four
  names of this program differ in more than case, and are kept as the source writes
  them.
\<close>

definition headers_set :: "string \<Rightarrow> header_value \<Rightarrow> response \<Rightarrow> response" where
  "headers_set name v r = r\<lparr>headers := AList.update name v (headers r)\<rparr>"

definition message :: "thrown \<Rightarrow> body" where
  "message e = (case e of Message msg \<Rightarrow> Plain msg | Engine_type_error \<Rightarrow> Engine_text)"

definition errorResponse :: "body \<Rightarrow> response" where
  "errorResponse msg = new_response msg 400 []"

section \<open>The handler\<close>

definition latitude_message :: string where
  \<open>latitude_message = ''You did not provide a latitude value in the "lat" search parameter.''\<close>

definition longitude_message :: string where
  \<open>longitude_message = ''You did not provide a longitude value in the "lat" search parameter.''\<close>

text \<open>The \<open>reduce\<close> that builds \<open>responseData\<close>: a spread of \<open>acc\<close> and one more key.\<close>

definition to_response_data :: "reading list \<Rightarrow> (string \<times> entry) list" where
  "to_response_data atmosphereData =
     foldl (\<lambda>acc curr. AList.update (r_type curr) \<lparr>e_unit = r_unit curr, e_value = r_value curr\<rparr> acc)
       [] atmosphereData"

definition handle ::
  "engine \<Rightarrow> (url \<Rightarrow> nat \<times> fetch_result) \<Rightarrow> request \<Rightarrow> response outcome" where
  "handle eng fetch req =
     (let lat = parseFloat (search_param req ''lat'') in
      if lat = NaN then Throws (Message latitude_message)
      else
        let lng = parseFloat (search_param req ''lng'') in
        if lng = NaN then Throws (Message longitude_message)
        else
          (case getAll eng fetch (lng, lat) of
             Inl e \<Rightarrow> Throws e
           | Inr atmosphereData \<Rightarrow>
               let responseData = to_response_data atmosphereData in
               (case aggregate eng responseData of
                  Throws e \<Rightarrow> Throws e
                | Returns aqi \<Rightarrow>
                    let payload = AList.update ''aqi'' (Index aqi)
                                    (map (\<lambda>(name, e). (name, Layer e)) responseData);
                        prettyPrint = (origin req = None)
                    in Returns
                         (new_response (Json payload (if prettyPrint then Some 4 else None)) 200
                            [(''content-type'', Literal ''application/json'')]))))"

section \<open>The expiry time and the listener\<close>

text \<open>
  A \<open>Date\<close> is its time value, in milliseconds since the epoch. The setters rebuild
  the time value from the day and the fields of the time within the day, so that an
  hour of 24 is the start of the next day.
\<close>

definition getUTCHours :: "int \<Rightarrow> int" where
  "getUTCHours t = (t div 3600000) mod 24"

definition setUTCHours :: "int \<Rightarrow> int \<Rightarrow> int" where
  "setUTCHours t h = (t div 86400000) * 86400000 + h * 3600000 + t mod 3600000"

definition setUTCMinutes :: "int \<Rightarrow> int \<Rightarrow> int" where
  "setUTCMinutes t m = (t div 3600000) * 3600000 + m * 60000 + t mod 60000"

definition setUTCSeconds :: "int \<Rightarrow> int \<Rightarrow> int" where
  "setUTCSeconds t s = (t div 60000) * 60000 + s * 1000 + t mod 1000"

text \<open>\<open>nextHour\<close>, given the time that its own \<open>new Date()\<close> reads.\<close>

definition nextHour :: "int \<Rightarrow> int" where
  "nextHour now = (let hh = getUTCHours now in if hh < 24 then hh + 1 else 0)"

text \<open>
  The listener, given the engine, the network, the time read by
  \<open>const d = new Date()\<close> and the time read afterwards inside \<open>nextHour\<close>. The result
  is the response handed to \<open>event.respondWith\<close>.
\<close>

definition listener ::
  "engine \<Rightarrow> (url \<Rightarrow> nat \<times> fetch_result) \<Rightarrow> int \<Rightarrow> int \<Rightarrow> request \<Rightarrow> response" where
  "listener eng fetch now_d now_hh req =
     (case handle eng fetch req of
        Throws e \<Rightarrow> errorResponse (message e)
      | Returns response \<Rightarrow>
          let d = now_d;
              d1 = setUTCHours d (nextHour now_hh);
              d2 = setUTCMinutes d1 0;
              d3 = setUTCSeconds d2 0
          in headers_set ''Access-Control-Request-Method'' (Literal ''GET'')
               (headers_set ''Access-Control-Allow-Origin'' (Literal ''*'')
                 (headers_set ''Expires'' (Utc_string (d3 div 1000)) response)))"

section \<open>Notions used to state the properties\<close>

text \<open>
  A real that is a finite double: rounding leaves it as it is.
\<close>

definition is_double :: "real \<Rightarrow> bool" where
  "is_double x = (to_double x = Fin x)"

text \<open>The numbers that an addition of a finite operand can give.\<close>

definition rounded :: "number \<Rightarrow> bool" where
  "rounded p = (case p of NaN \<Rightarrow> False | Fin y \<Rightarrow> is_double y | _ \<Rightarrow> True)"

text \<open>
  A value that is \<open>null\<close> or a finite number, and the real it contributes to the sum
  of the aggregator.
\<close>

definition finite_or_null :: "jsval \<Rightarrow> bool" where
  "finite_or_null v = (case v of Null \<Rightarrow> True | Num (Fin x) \<Rightarrow> True | _ \<Rightarrow> False)"

definition null_as_zero :: "jsval \<Rightarrow> real" where
  "null_as_zero v = (case v of Num (Fin x) \<Rightarrow> x | _ \<Rightarrow> 0)"

text \<open>A value that is neither an array nor an object.\<close>

definition primitive :: "jsval \<Rightarrow> bool" where
  "primitive v = (case v of Arr xs \<Rightarrow> False | Obj props \<Rightarrow> False | _ \<Rightarrow> True)"


text \<open>
  A text with a numeric prefix: after the leading white space and an optional sign it
  starts with \<open>Infinity\<close>, with a digit, or with a point and a digit.
\<close>

definition has_numeric_prefix :: "string \<Rightarrow> bool" where
  "has_numeric_prefix s =
     (prefix ''Infinity'' (unsigned_part s)
      \<or> (case unsigned_part s of
            [] \<Rightarrow> False
          | c # r \<Rightarrow>
              is_digit c
              \<or> (c = CHR ''.'' \<and> (case r of [] \<Rightarrow> False | d # _ \<Rightarrow> is_digit d))))"

text \<open>
  The time of the \<open>Expires\<close> header, in seconds, from the two readings of the clock.
\<close>

definition expiry :: "int \<Rightarrow> int \<Rightarrow> int" where
  "expiry now_d now_hh =
     setUTCSeconds (setUTCMinutes (setUTCHours now_d (nextHour now_hh)) 0) 0 div 1000"

text \<open>The reading that \<open>get\<close> fulfils with for one type, when it fulfils.\<close>

definition own_reading ::
  "engine \<Rightarrow> (url \<Rightarrow> nat \<times> fetch_result) \<Rightarrow> number \<times> number \<Rightarrow> string \<Rightarrow> reading" where
  "own_reading eng fetch c k =
     (case snd (get eng fetch c k) of
        Inr r \<Rightarrow> r
      | Inl _ \<Rightarrow> \<lparr>r_type = k, r_value = Null, r_unit = Null\<rparr>)"

text \<open>
  A network for examples: the answer is looked up by the layer of the query, with one
  answer for every other query; and a document of the shape the service sends.
\<close>

definition mocked ::
  "(string \<times> nat \<times> fetch_result) list \<Rightarrow> nat \<times> fetch_result \<Rightarrow> url \<Rightarrow> nat \<times> fetch_result" where
  "mocked table other u =
     (case map_of (searchParams u) ''layers'' of
        Some (Text layer) \<Rightarrow> (case map_of table layer of None \<Rightarrow> other | Some r \<Rightarrow> r)
      | _ \<Rightarrow> other)"

definition probes :: "jsval \<Rightarrow> jsval \<Rightarrow> jsval" where
  "probes d u = Obj [(''Probes'', Arr [Obj [(''Value'', Obj [(''Data'', d), (''Unit'', u)])]])]"

section \<open>Rounding to a double\<close>

lemma to_double_not_nan [simp]: "to_double x \<noteq> NaN"
  by (simp add: to_double_def Let_def signed_inf_def)

lemma round_even_of_int [simp]: "round_even (of_int n) = n"
  by (simp add: round_even_def)

lemma round_even_bounds: "\<lfloor>y\<rfloor> \<le> round_even y \<and> round_even y \<le> \<lfloor>y\<rfloor> + 1"
  by (simp add: round_even_def Let_def)

lemma quantum_ge: "- 1074 \<le> quantum x"
  by (simp add: quantum_def)

lemma quantum_le:
  assumes "x \<noteq> 0" "\<bar>x\<bar> < 2 powr of_int (e + 53)" "- 1074 \<le> e"
  shows "quantum x \<le> e"
proof -
  have "log 2 \<bar>x\<bar> < of_int (e + 53)"
    using assms(1,2) by (simp add: log_less_iff)
  then have "\<lfloor>log 2 \<bar>x\<bar>\<rfloor> < e + 53" by linarith
  with assms(3) show ?thesis by (simp add: quantum_def)
qed

lemma abs_less_quantum:
  assumes "x \<noteq> 0"
  shows "\<bar>x\<bar> < 2 powr of_int (quantum x + 53)"
proof -
  let ?k = "\<lfloor>log 2 \<bar>x\<bar>\<rfloor>"
  have "\<bar>x\<bar> < 2 powr of_int (?k + 1)"
    using assms floor_log_eq_powr_iff[of "\<bar>x\<bar>" 2 ?k] by simp
  also have "\<dots> \<le> 2 powr of_int (quantum x + 53)"
    by (simp add: quantum_def)
  finally show ?thesis .
qed

lemma two_powr_nonneg: "0 \<le> d \<Longrightarrow> (2::real) powr of_int d = 2 ^ nat d"
  by (simp add: powr_real_of_int)

lemma two_powr_split: "(2::real) powr of_int e = 2 powr of_int (e - q) * 2 powr of_int q"
  by (simp add: powr_add[symmetric])

lemma abs_int_less_real: "\<bar>m\<bar> < 2 ^ 53 \<Longrightarrow> \<bar>real_of_int m\<bar> < 2 ^ 53"
  by (metis of_int_abs of_int_less_numeral_power_cancel_iff)

text \<open>A real with a significand of at most 53 bits and a finite magnitude is a double.\<close>

lemma to_double_exact:
  assumes x: "x = of_int m * 2 powr of_int e" and m: "\<bar>m\<bar> < 2 ^ 53"
    and e: "- 1074 \<le> e" and fin: "\<bar>x\<bar> < 2 powr 1024"
  shows "to_double x = Fin x"
proof (cases "x = 0")
  case True
  then show ?thesis by (simp add: to_double_def)
next
  case False
  let ?q = "quantum x"
  have "\<bar>x\<bar> = \<bar>of_int m\<bar> * 2 powr of_int e" by (simp add: x abs_mult)
  also have "\<dots> < 2 ^ 53 * 2 powr of_int e"
    using abs_int_less_real[OF m] by simp
  also have "\<dots> = 2 powr of_int (e + 53)"
    by (simp add: powr_add powr_realpow[symmetric])
  finally have "\<bar>x\<bar> < 2 powr of_int (e + 53)" .
  then have qe: "?q \<le> e" using quantum_le[of x e] False e by simp
  define P :: real where "P = 2 powr of_int ?q"
  define N :: int where "N = 2 ^ nat (e - ?q)"
  have P: "0 < P" by (simp add: P_def)
  have "(2::real) powr of_int e = 2 powr of_int (e - ?q) * P"
    unfolding P_def by (rule two_powr_split)
  moreover have "(2::real) powr of_int (e - ?q) = of_int N"
    unfolding N_def using qe by (simp only: of_int_power of_int_numeral) (intro two_powr_nonneg, simp)
  ultimately have xP: "x = of_int (m * N) * P" by (simp add: x)
  then have "x / P = of_int (m * N)" using P by simp
  then have "round_even (x / P) = m * N" by (simp only: round_even_of_int)
  then have "of_int (round_even (x / P)) * P = x" using xP by simp
  with False fin show ?thesis by (simp add: to_double_def Let_def P_def)
qed

lemma to_double_of_int:
  assumes "\<bar>m\<bar> < 2 ^ 53"
  shows "to_double (of_int m) = Fin (of_int m)"
proof (rule to_double_exact[of _ m 0])
  show "real_of_int m = of_int m * 2 powr of_int 0" by simp
  show "\<bar>m\<bar> < 2 ^ 53" by fact
  show "- 1074 \<le> (0::int)" by simp
  have "\<bar>real_of_int m\<bar> < 2 ^ 53" using assms by (rule abs_int_less_real)
  also have "(2::real) ^ 53 \<le> 2 ^ 1024" by (rule power_increasing) simp_all
  finally show "\<bar>real_of_int m\<bar> < 2 powr 1024" by simp
qed

lemma to_double_halves:
  assumes "\<bar>m\<bar> < 2 ^ 53"
  shows "to_double (of_int m / 2) = Fin (of_int m / 2)"
proof (rule to_double_exact[of _ m "- 1"])
  have "(2::real) powr (- 1) = 1 / 2" by (simp add: powr_neg_one)
  then show "real_of_int m / 2 = of_int m * 2 powr of_int (- 1)" by simp
  show "\<bar>m\<bar> < 2 ^ 53" by fact
  show "- 1074 \<le> (- 1::int)" by simp
  have "\<bar>real_of_int m\<bar> < 2 ^ 53" using assms by (rule abs_int_less_real)
  also have "(2::real) ^ 53 \<le> 2 ^ 1024" by (rule power_increasing) simp_all
  finally have "\<bar>real_of_int m\<bar> < 2 powr 1024" by simp
  then show "\<bar>real_of_int m / 2\<bar> < 2 powr 1024" by simp
qed

lemma to_double_numeral:
  "(numeral n :: int) < 2 ^ 53 \<Longrightarrow> to_double (numeral n) = Fin (numeral n)"
  using to_double_of_int[of "numeral n"] by simp

lemma to_double_numeral_half:
  "(numeral n :: int) < 2 ^ 53 \<Longrightarrow> to_double (numeral n / 2) = Fin (numeral n / 2)"
  using to_double_halves[of "numeral n"] by simp

text \<open>What rounding gives is a double.\<close>

lemma to_double_idem:
  assumes "to_double x = Fin y"
  shows "to_double y = Fin y"
proof (cases "x = 0")
  case True
  with assms show ?thesis by (auto simp: to_double_def)
next
  case False
  define q where "q = quantum x"
  define P :: real where "P = 2 powr of_int q"
  define n where "n = round_even (x / P)"
  have P: "0 < P" by (simp add: P_def)
  have y: "y = of_int n * P" and fin: "\<bar>y\<bar> < 2 powr 1024"
    using assms False
    by (auto simp: to_double_def Let_def q_def P_def n_def signed_inf_def split: if_splits)
  have "\<bar>x\<bar> < 2 powr of_int (q + 53)"
    unfolding q_def by (rule abs_less_quantum[OF False])
  also have "\<dots> = 2 ^ 53 * P"
    by (simp add: P_def powr_add powr_realpow[symmetric])
  finally have "\<bar>x / P\<bar> < 2 ^ 53" using P by (simp add: abs_mult field_simps)
  then have z: "- (2 ^ 53) < x / P" "x / P < 2 ^ 53" by linarith+
  have lo: "- (2 ^ 53) \<le> \<lfloor>x / P\<rfloor>"
  proof -
    have "real_of_int (- (2 ^ 53)) \<le> x / P" using z(1) by simp
    then show ?thesis by (simp only: le_floor_iff)
  qed
  have hi: "\<lfloor>x / P\<rfloor> < 2 ^ 53"
  proof -
    have "x / P < real_of_int (2 ^ 53)" using z(2) by simp
    then show ?thesis by (simp only: floor_less_iff)
  qed
  have n: "- (2 ^ 53) \<le> n" "n \<le> 2 ^ 53"
    using round_even_bounds[of "x / P"] lo hi unfolding n_def by linarith+
  have q: "- 1074 \<le> q" unfolding q_def by (rule quantum_ge)
  show ?thesis
  proof (cases "\<bar>n\<bar> < 2 ^ 53")
    case True
    show ?thesis
    proof (rule to_double_exact[of y n q])
      show "y = of_int n * 2 powr of_int q" using y by (simp only: P_def)
      show "\<bar>n\<bar> < 2 ^ 53" by (rule True)
      show "- 1074 \<le> q" by (rule q)
      show "\<bar>y\<bar> < 2 powr 1024" by (rule fin)
    qed
  next
    case False
    with n have "n = 2 ^ 53 \<or> n = - (2 ^ 53)" by linarith
    then have "y = of_int (n div 2) * 2 powr of_int (q + 1) \<and> \<bar>n div 2\<bar> < 2 ^ 53"
      by (auto simp: y P_def powr_add)
    then have a: "y = of_int (n div 2) * 2 powr of_int (q + 1)" and b: "\<bar>n div 2\<bar> < 2 ^ 53"
      by blast+
    show ?thesis
    proof (rule to_double_exact[of y "n div 2" "q + 1"])
      show "y = of_int (n div 2) * 2 powr of_int (q + 1)" by (rule a)
      show "\<bar>n div 2\<bar> < 2 ^ 53" by (rule b)
      show "- 1074 \<le> q + 1" using q by linarith
      show "\<bar>y\<bar> < 2 powr 1024" by (rule fin)
    qed
  qed
qed

lemma to_double_cases:
  obtains "to_double x = PInf" | "to_double x = NInf" | y where "to_double x = Fin y" "is_double y"
  using to_double_idem[of x] to_double_not_nan[of x]
  by (cases "to_double x") (auto simp: is_double_def)

text \<open>Two to the power 1023 is a double, and twice as much rounds to infinity.\<close>

lemma big_is_double: "to_double (2 ^ 1023) = Fin (2 ^ 1023)"
proof (rule to_double_exact[of _ 1 1023])
  show "(2::real) ^ 1023 = of_int 1 * 2 powr of_int 1023" by simp
  show "\<bar>1::int\<bar> < 2 ^ 53" by simp
  show "- 1074 \<le> (1023::int)" by simp
  have "(2::real) ^ 1023 < 2 ^ 1024" by (rule power_strict_increasing) simp_all
  then show "\<bar>(2::real) ^ 1023\<bar> < 2 powr 1024" by simp
qed

lemma twice_big_overflows: "to_double (2 ^ 1023 + 2 ^ 1023) = PInf"
proof -
  define X :: real where "X = 2 powr of_int 1024"
  have X: "0 < X" by (simp add: X_def)
  have eq: "(2::real) ^ 1023 + 2 ^ 1023 = X" by (simp add: X_def)
  have lim: "(2::real) powr 1024 = X" by (simp add: X_def)
  have "log 2 X = of_int 1024" unfolding X_def by (rule log_powr_cancel) simp_all
  then have "\<lfloor>log 2 \<bar>X\<bar>\<rfloor> = 1024" using X by simp
  then have q: "quantum X = 972" by (simp add: quantum_def)
  have "X = of_int (2 ^ 52) * 2 powr of_int 972"
    unfolding X_def by (simp add: powr_add[symmetric] powr_realpow[symmetric])
  then have "X / 2 powr of_int 972 = of_int (2 ^ 52)" by simp
  then have r: "round_even (X / 2 powr of_int 972) = 2 ^ 52"
    by (simp only: round_even_of_int)
  have prod: "of_int (2 ^ 52) * (2::real) powr of_int 972 = X"
    unfolding X_def by (simp add: powr_add[symmetric] powr_realpow[symmetric])
  have "to_double X = PInf"
    using X unfolding to_double_def Let_def q r prod lim by (simp add: signed_inf_def)
  then show ?thesis by (simp only: eq)
qed

text \<open>
  Evaluating a rounding: a real whose magnitude, scaled by \<open>2 ^ s\<close>, lies in
  \<open>[2 ^ 52, 2 ^ 53)\<close> has the quantum \<open>2 ^ - s\<close>, and it rounds to the nearest
  integer multiple of that quantum, the even one on a tie.
\<close>

lemma to_double_round:
  assumes lo: "2 ^ 52 \<le> \<bar>x\<bar> * 2 ^ s" and hi: "\<bar>x\<bar> * 2 ^ s < 2 ^ 53"
    and s: "s \<le> 1074"
    and n: "round_even (x * 2 ^ s) = n"
  shows "to_double x = Fin (of_int n / 2 ^ s)"
proof -
  define k :: int where "k = 52 - int s"
  have S: "(2::real) ^ s = 2 powr of_int (int s)" by (simp add: powr_realpow)
  have x0: "x \<noteq> 0" using lo by auto
  have kk: "real_of_int k = 52 - real s" by (simp add: k_def)
  have pk: "(2::real) powr of_int k = 2 ^ 52 / 2 ^ s"
    unfolding kk powr_diff by (simp add: powr_realpow)
  have a: "2 powr of_int k \<le> \<bar>x\<bar>"
  proof -
    note pk
    also have "\<dots> \<le> \<bar>x\<bar>" using lo by (simp add: field_simps)
    finally show ?thesis .
  qed
  have b: "\<bar>x\<bar> < 2 powr of_int (k + 1)"
  proof -
    have "\<bar>x\<bar> < 2 ^ 53 / 2 ^ s" using hi by (simp add: field_simps)
    also have "\<dots> = 2 powr of_int (k + 1)"
      by (simp add: pk powr_add)
    finally show ?thesis .
  qed
  have "\<lfloor>log 2 \<bar>x\<bar>\<rfloor> = k"
    using x0 a b floor_log_eq_powr_iff[of "\<bar>x\<bar>" 2 k] by simp
  then have q: "quantum x = - int s"
    using s by (simp add: quantum_def k_def)
  have P: "(2::real) powr of_int (- int s) = 1 / 2 ^ s"
    by (simp add: powr_minus powr_realpow divide_inverse)
  have div: "x / 2 powr of_int (- int s) = x * 2 ^ s" unfolding P by simp
  have "\<bar>real_of_int n\<bar> \<le> 2 ^ 53"
  proof -
    have "\<bar>x * 2 ^ s\<bar> < 2 ^ 53" using hi by (simp add: abs_mult)
    then have z: "- (2 ^ 53) < x * 2 ^ s" "x * 2 ^ s < 2 ^ 53" by linarith+
    have l: "- (2 ^ 53) \<le> \<lfloor>x * 2 ^ s\<rfloor>"
    proof -
      have "real_of_int (- (2 ^ 53)) \<le> x * 2 ^ s" using z(1) by simp
      then show ?thesis by (simp only: le_floor_iff)
    qed
    have h: "\<lfloor>x * 2 ^ s\<rfloor> < 2 ^ 53"
    proof -
      have "x * 2 ^ s < real_of_int (2 ^ 53)" using z(2) by simp
      then show ?thesis by (simp only: floor_less_iff)
    qed
    have "- (2 ^ 53) \<le> n \<and> n \<le> 2 ^ 53"
      using round_even_bounds[of "x * 2 ^ s"] l h n by linarith
    then have "\<bar>n\<bar> \<le> 2 ^ 53" by linarith
    then show ?thesis by (metis of_int_abs of_int_le_numeral_power_cancel_iff)
  qed
  then have "\<bar>real_of_int n / 2 ^ s\<bar> \<le> 2 ^ 53"
  proof -
    assume *: "\<bar>real_of_int n\<bar> \<le> 2 ^ 53"
    have "(1::real) \<le> 2 ^ s" by simp
    then have "\<bar>real_of_int n\<bar> / 2 ^ s \<le> \<bar>real_of_int n\<bar>"
      by (simp add: divide_le_eq mult_le_cancel_left1)
    with * show ?thesis by simp
  qed
  moreover have "(2::real) ^ 53 < 2 ^ 1024" by (rule power_strict_increasing) simp_all
  ultimately have fin: "\<not> 2 powr 1024 \<le> \<bar>real_of_int n / 2 ^ s\<bar>" by simp
  show ?thesis
    unfolding to_double_def Let_def q div n P using x0 fin n by simp
qed

section \<open>The aggregator: null, undefined and the bands\<close>

lemma to_double_zero [simp]: "to_double 0 = Fin 0"
  by (simp add: to_double_def)

lemma rounded_to_double: "rounded (to_double x)"
  by (rule to_double_cases[of x]) (simp_all add: rounded_def)

lemma rounded_not_nan: "rounded p \<Longrightarrow> p \<noteq> NaN"
  by (auto simp: rounded_def)

lemma rounded_add: "p \<noteq> NaN \<Longrightarrow> rounded (num_add p (Fin x))"
  by (cases p) (simp_all add: rounded_to_double, simp_all add: rounded_def)

lemma add_not_nan: "p \<noteq> NaN \<Longrightarrow> num_add p (Fin x) \<noteq> NaN"
  by (rule rounded_not_nan) (rule rounded_add)

lemma rounded_add_zero: "rounded p \<Longrightarrow> num_add p (Fin 0) = p"
  by (cases p) (simp_all add: rounded_def is_double_def)

lemma zero_add_double: "is_double a \<Longrightarrow> num_add (Fin 0) (Fin a) = Fin a"
  by (simp add: is_double_def)

lemma div_four_not_nan: "p \<noteq> NaN \<Longrightarrow> num_div p (Fin 4) \<noteq> NaN"
  by (cases p) (simp_all add: signed_inf_def)

lemma qualitative_not_nan: "v \<noteq> NaN \<Longrightarrow> qualitative v \<noteq> None"
  by (cases v) (auto simp: qualitative_def)

lemma plus_op_finite_or_null:
  "finite_or_null v \<Longrightarrow>
     plus_op eng (PNum p) v = Some (PNum (num_add p (Fin (null_as_zero v))))"
  by (cases v) (auto simp: finite_or_null_def null_as_zero_def plus_op_def split: number.splits)

lemma average_finite_or_null:
  assumes "finite_or_null a" "finite_or_null b" "finite_or_null c" "finite_or_null d"
  shows "average eng [a, b, c, d] =
           Some (num_div
                  (num_add (num_add (num_add (num_add (Fin 0) (Fin (null_as_zero a)))
                     (Fin (null_as_zero b))) (Fin (null_as_zero c))) (Fin (null_as_zero d)))
                  (Fin 4))"
  using assms by (simp add: average_def plus_op_finite_or_null)

lemma average_numbers:
  "average eng [Num (Fin a), Num (Fin b), Num (Fin c), Num (Fin d)] =
     Some (num_div (num_add (num_add (num_add (num_add (Fin 0) (Fin a)) (Fin b)) (Fin c)) (Fin d))
             (Fin 4))"
  by (simp add: average_def plus_op_def)

text \<open>
  C1 (as amended). With the readings NO2 = 40, PM10 = 20, O3 = 60 and PM2.5 = 10 the
  aggregator produces the value 32.5, and the name it assigns is \<open>low\<close>: 32.5 is below
  50 and not below 25, so the check \<open>< 50\<close> is the last one to assign.
\<close>

theorem designated_readings_give_low:
  assumes "map_of rd ''NO2'' = Some no2" "e_value no2 = Num (Fin 40)"
   "map_of rd ''PM10'' = Some pm10" "e_value pm10 = Num (Fin 20)"
   "map_of rd ''O3'' = Some o3" "e_value o3 = Num (Fin 60)"
   "map_of rd ''PM2.5'' = Some pm25" "e_value pm25 = Num (Fin 10)"
  shows "aggregate eng rd = Returns \<lparr>qualitativeName = Some ''low'', aqi_value = Fin 32.5\<rparr>"
  using assms
  by (simp add: aggregate_def average_numbers to_double_numeral to_double_numeral_half
        qualitative_def)

theorem designated_readings_give_low_witness:
  "\<forall>eng. aggregate eng
            [(''NO2'', \<lparr>e_unit = Str ''ug'', e_value = Num (Fin 40)\<rparr>),
             (''O3'', \<lparr>e_unit = Str ''ug'', e_value = Num (Fin 60)\<rparr>),
             (''PM10'', \<lparr>e_unit = Str ''ug'', e_value = Num (Fin 20)\<rparr>),
             (''PM2.5'', \<lparr>e_unit = Str ''ug'', e_value = Num (Fin 10)\<rparr>)]
          = Returns \<lparr>qualitativeName = Some ''low'', aqi_value = Fin 32.5\<rparr>"
proof
  fix eng
  show "aggregate eng
            [(''NO2'', \<lparr>e_unit = Str ''ug'', e_value = Num (Fin 40)\<rparr>),
             (''O3'', \<lparr>e_unit = Str ''ug'', e_value = Num (Fin 60)\<rparr>),
             (''PM10'', \<lparr>e_unit = Str ''ug'', e_value = Num (Fin 20)\<rparr>),
             (''PM2.5'', \<lparr>e_unit = Str ''ug'', e_value = Num (Fin 10)\<rparr>)]
          = Returns \<lparr>qualitativeName = Some ''low'', aqi_value = Fin 32.5\<rparr>"
  using designated_readings_give_low [of "[(''NO2'', \<lparr>e_unit = Str ''ug'', e_value = Num (Fin 40)\<rparr>),
              (''O3'', \<lparr>e_unit = Str ''ug'', e_value = Num (Fin 60)\<rparr>),
              (''PM10'', \<lparr>e_unit = Str ''ug'', e_value = Num (Fin 20)\<rparr>),
              (''PM2.5'', \<lparr>e_unit = Str ''ug'', e_value = Num (Fin 10)\<rparr>)]"
            "\<lparr>e_unit = Str ''ug'', e_value = Num (Fin 40)\<rparr>"
            "\<lparr>e_unit = Str ''ug'', e_value = Num (Fin 20)\<rparr>"
            "\<lparr>e_unit = Str ''ug'', e_value = Num (Fin 60)\<rparr>"
            "\<lparr>e_unit = Str ''ug'', e_value = Num (Fin 10)\<rparr>" eng]
  by simp
qed

text \<open>
  The name is not \<open>medium\<close>, which is what the claim C1 states.
\<close>

theorem designated_readings_not_medium:
  "\<forall>eng. aggregate eng
            [(''NO2'', \<lparr>e_unit = Str ''ug'', e_value = Num (Fin 40)\<rparr>),
             (''O3'', \<lparr>e_unit = Str ''ug'', e_value = Num (Fin 60)\<rparr>),
             (''PM10'', \<lparr>e_unit = Str ''ug'', e_value = Num (Fin 20)\<rparr>),
             (''PM2.5'', \<lparr>e_unit = Str ''ug'', e_value = Num (Fin 10)\<rparr>)]
          \<noteq> Returns \<lparr>qualitativeName = Some ''medium'', aqi_value = Fin 32.5\<rparr>"
  by (simp add: aggregate_def average_numbers to_double_numeral to_double_numeral_half
        qualitative_def)

text \<open>
  C2 (as amended). When each of the four designated values is \<open>null\<close> or a finite
  number and at least one is \<open>null\<close>, a \<open>null\<close> counts as 0 in the sum: the value of
  the index is the sum, in doubles and in the order NO2, PM10, O3, PM2.5, of the
  values with 0 for each \<open>null\<close>, divided by 4. It is never NaN (it is an infinity
  when the sum overflows), and a qualitative name is always assigned, the band of that
  value.
\<close>

theorem null_counts_as_zero:
  assumes "map_of rd ''NO2'' = Some no2" "map_of rd ''PM10'' = Some pm10"
    "map_of rd ''O3'' = Some o3" "map_of rd ''PM2.5'' = Some pm25"
    and "finite_or_null (e_value no2)" "finite_or_null (e_value pm10)"
        "finite_or_null (e_value o3)" "finite_or_null (e_value pm25)"
    and "Null \<in> {e_value no2, e_value pm10, e_value o3, e_value pm25}"
  shows "let v = num_div
                   (num_add (num_add (num_add (num_add (Fin 0)
                      (Fin (null_as_zero (e_value no2)))) (Fin (null_as_zero (e_value pm10))))
                      (Fin (null_as_zero (e_value o3)))) (Fin (null_as_zero (e_value pm25))))
                   (Fin 4)
         in aggregate eng rd = Returns \<lparr>qualitativeName = qualitative v, aqi_value = v\<rparr>
            \<and> v \<noteq> NaN \<and> qualitative v \<noteq> None"
proof -
  let ?s = "num_add (num_add (num_add (num_add (Fin 0)
              (Fin (null_as_zero (e_value no2)))) (Fin (null_as_zero (e_value pm10))))
              (Fin (null_as_zero (e_value o3)))) (Fin (null_as_zero (e_value pm25)))"
  have "?s \<noteq> NaN"
    by (intro add_not_nan) simp
  then have v: "num_div ?s (Fin 4) \<noteq> NaN" by (rule div_four_not_nan)
  show ?thesis
    using assms(1-4) average_finite_or_null[OF assms(5-8), of eng] v qualitative_not_nan[OF v]
    by (simp add: aggregate_def Let_def)
qed

theorem null_counts_as_zero_witness:
  "\<forall>eng. aggregate eng
            [(''NO2'', \<lparr>e_unit = Null, e_value = Null\<rparr>),
             (''O3'', \<lparr>e_unit = Null, e_value = Null\<rparr>),
             (''PM10'', \<lparr>e_unit = Str ''ug'', e_value = Num (Fin 30)\<rparr>),
             (''PM2.5'', \<lparr>e_unit = Str ''ug'', e_value = Num (Fin 10)\<rparr>)]
          = Returns \<lparr>qualitativeName = Some ''very_low'', aqi_value = Fin 10\<rparr>"
proof
  fix eng
  show "aggregate eng
            [(''NO2'', \<lparr>e_unit = Null, e_value = Null\<rparr>),
             (''O3'', \<lparr>e_unit = Null, e_value = Null\<rparr>),
             (''PM10'', \<lparr>e_unit = Str ''ug'', e_value = Num (Fin 30)\<rparr>),
             (''PM2.5'', \<lparr>e_unit = Str ''ug'', e_value = Num (Fin 10)\<rparr>)]
          = Returns \<lparr>qualitativeName = Some ''very_low'', aqi_value = Fin 10\<rparr>"
    using null_counts_as_zero
          [of "[(''NO2'', \<lparr>e_unit = Null, e_value = Null\<rparr>),
                (''O3'', \<lparr>e_unit = Null, e_value = Null\<rparr>),
                (''PM10'', \<lparr>e_unit = Str ''ug'', e_value = Num (Fin 30)\<rparr>),
                (''PM2.5'', \<lparr>e_unit = Str ''ug'', e_value = Num (Fin 10)\<rparr>)]"
              "\<lparr>e_unit = Null, e_value = Null\<rparr>"
              "\<lparr>e_unit = Str ''ug'', e_value = Num (Fin 30)\<rparr>"
              "\<lparr>e_unit = Null, e_value = Null\<rparr>"
              "\<lparr>e_unit = Str ''ug'', e_value = Num (Fin 10)\<rparr>" eng]
    by (simp add: finite_or_null_def null_as_zero_def qualitative_def to_double_numeral Let_def)
qed

text \<open>
  With NO2 \<open>null\<close> and the other three numeric, the value is 22.5 and the name is
  \<open>very_low\<close>: neither NaN nor unset, which is what the claim C2 states.
\<close>

theorem one_null_not_nan:
  "\<forall>eng. aggregate eng
            [(''NO2'', \<lparr>e_unit = Null, e_value = Null\<rparr>),
             (''O3'', \<lparr>e_unit = Str ''ug'', e_value = Num (Fin 60)\<rparr>),
             (''PM10'', \<lparr>e_unit = Str ''ug'', e_value = Num (Fin 20)\<rparr>),
             (''PM2.5'', \<lparr>e_unit = Str ''ug'', e_value = Num (Fin 10)\<rparr>)]
          = Returns \<lparr>qualitativeName = Some ''very_low'', aqi_value = Fin 22.5\<rparr>"
  by (simp add: aggregate_def average_def plus_op_def to_double_numeral to_double_numeral_half
        qualitative_def)

lemma average_one_null:
  assumes "is_double a" "is_double b" "is_double c"
    and "vs \<in> {[Null, Num (Fin a), Num (Fin b), Num (Fin c)],
               [Num (Fin a), Null, Num (Fin b), Num (Fin c)],
               [Num (Fin a), Num (Fin b), Null, Num (Fin c)],
               [Num (Fin a), Num (Fin b), Num (Fin c), Null]}"
  shows "average eng vs = Some (num_div (num_add (num_add (Fin a) (Fin b)) (Fin c)) (Fin 4))"
proof -
  have z: "num_add (Fin 0) (Fin 0) = Fin 0" by simp
  have a0: "num_add (Fin 0) (Fin a) = Fin a" using assms(1) by (rule zero_add_double)
  have a1: "num_add (Fin a) (Fin 0) = Fin a" using assms(1) by (simp add: is_double_def)
  have ab: "num_add (num_add (Fin a) (Fin b)) (Fin 0) = num_add (Fin a) (Fin b)"
    by (intro rounded_add_zero rounded_add) simp
  have "num_add (Fin a) (Fin b) \<noteq> NaN" by (intro add_not_nan) simp
  then have abc: "num_add (num_add (num_add (Fin a) (Fin b)) (Fin c)) (Fin 0)
               = num_add (num_add (Fin a) (Fin b)) (Fin c)"
    by (intro rounded_add_zero rounded_add)
  from assms(4) consider
      "vs = [Null, Num (Fin a), Num (Fin b), Num (Fin c)]"
    | "vs = [Num (Fin a), Null, Num (Fin b), Num (Fin c)]"
    | "vs = [Num (Fin a), Num (Fin b), Null, Num (Fin c)]"
    | "vs = [Num (Fin a), Num (Fin b), Num (Fin c), Null]"
    by auto
  then show ?thesis
  proof cases
    case 1
    have "average eng vs = Some (num_div (num_add (num_add (num_add (num_add (Fin 0) (Fin 0))
             (Fin a)) (Fin b)) (Fin c)) (Fin 4))"
      unfolding 1 using average_finite_or_null[of Null "Num (Fin a)" "Num (Fin b)" "Num (Fin c)" eng]
      by (simp add: finite_or_null_def null_as_zero_def del: num_add.simps)
    then show ?thesis by (simp only: z a0)
  next
    case 2
    have "average eng vs = Some (num_div (num_add (num_add (num_add (num_add (Fin 0) (Fin a))
             (Fin 0)) (Fin b)) (Fin c)) (Fin 4))"
      unfolding 2 using average_finite_or_null[of "Num (Fin a)" Null "Num (Fin b)" "Num (Fin c)" eng]
      by (simp add: finite_or_null_def null_as_zero_def del: num_add.simps)
    then show ?thesis by (simp only: a0 a1)
  next
    case 3
    have "average eng vs = Some (num_div (num_add (num_add (num_add (num_add (Fin 0) (Fin a))
             (Fin b)) (Fin 0)) (Fin c)) (Fin 4))"
      unfolding 3 using average_finite_or_null[of "Num (Fin a)" "Num (Fin b)" Null "Num (Fin c)" eng]
      by (simp add: finite_or_null_def null_as_zero_def del: num_add.simps)
    then show ?thesis by (simp only: a0 ab)
  next
    case 4
    have "average eng vs = Some (num_div (num_add (num_add (num_add (num_add (Fin 0) (Fin a))
             (Fin b)) (Fin c)) (Fin 0)) (Fin 4))"
      unfolding 4 using average_finite_or_null[of "Num (Fin a)" "Num (Fin b)" "Num (Fin c)" Null eng]
      by (simp add: finite_or_null_def null_as_zero_def del: num_add.simps)
    then show ?thesis by (simp only: a0 abc)
  qed
qed

text \<open>
  C3 (as amended). When exactly one of the four designated values is \<open>null\<close> and the
  other three are finite doubles \<open>a\<close>, \<open>b\<close> and \<open>c\<close>, in this order, the value of the
  index is the sum of the three in doubles, \<open>(a + b) + c\<close>, divided by 4, wherever the
  \<open>null\<close> stands. It is never NaN; it is an infinity when the sum overflows.
\<close>

theorem one_null_sum_of_three:
  assumes "map_of rd ''NO2'' = Some no2" "map_of rd ''PM10'' = Some pm10"
    "map_of rd ''O3'' = Some o3" "map_of rd ''PM2.5'' = Some pm25"
    and "is_double a" "is_double b" "is_double c"
    and "[e_value no2, e_value pm10, e_value o3, e_value pm25] \<in>
           {[Null, Num (Fin a), Num (Fin b), Num (Fin c)],
            [Num (Fin a), Null, Num (Fin b), Num (Fin c)],
            [Num (Fin a), Num (Fin b), Null, Num (Fin c)],
            [Num (Fin a), Num (Fin b), Num (Fin c), Null]}"
  shows "let v = num_div (num_add (num_add (Fin a) (Fin b)) (Fin c)) (Fin 4)
         in aggregate eng rd = Returns \<lparr>qualitativeName = qualitative v, aqi_value = v\<rparr>
            \<and> v \<noteq> NaN"
proof -
  have "num_add (num_add (Fin a) (Fin b)) (Fin c) \<noteq> NaN"
    by (intro add_not_nan) simp
  then have "num_div (num_add (num_add (Fin a) (Fin b)) (Fin c)) (Fin 4) \<noteq> NaN"
    by (rule div_four_not_nan)
  then show ?thesis
    using assms(1-4) average_one_null[OF assms(5-8), of eng]
    by (simp add: aggregate_def Let_def)
qed

theorem one_null_sum_of_three_witness:
  "\<forall>eng. aggregate eng
            [(''NO2'', \<lparr>e_unit = Str ''ug'', e_value = Num (Fin 40)\<rparr>),
             (''O3'', \<lparr>e_unit = Str ''ug'', e_value = Num (Fin 60)\<rparr>),
             (''PM10'', \<lparr>e_unit = Null, e_value = Null\<rparr>),
             (''PM2.5'', \<lparr>e_unit = Str ''ug'', e_value = Num (Fin 10)\<rparr>)]
          = Returns \<lparr>qualitativeName = Some ''low'', aqi_value = Fin 27.5\<rparr>"
proof
  fix eng
  have d: "is_double 40" "is_double 60" "is_double 10"
    by (simp_all add: is_double_def to_double_numeral)
  show "aggregate eng
            [(''NO2'', \<lparr>e_unit = Str ''ug'', e_value = Num (Fin 40)\<rparr>),
             (''O3'', \<lparr>e_unit = Str ''ug'', e_value = Num (Fin 60)\<rparr>),
             (''PM10'', \<lparr>e_unit = Null, e_value = Null\<rparr>),
             (''PM2.5'', \<lparr>e_unit = Str ''ug'', e_value = Num (Fin 10)\<rparr>)]
          = Returns \<lparr>qualitativeName = Some ''low'', aqi_value = Fin 27.5\<rparr>"
    using d one_null_sum_of_three
          [of "[(''NO2'', \<lparr>e_unit = Str ''ug'', e_value = Num (Fin 40)\<rparr>),
                (''O3'', \<lparr>e_unit = Str ''ug'', e_value = Num (Fin 60)\<rparr>),
                (''PM10'', \<lparr>e_unit = Null, e_value = Null\<rparr>),
                (''PM2.5'', \<lparr>e_unit = Str ''ug'', e_value = Num (Fin 10)\<rparr>)]"
              "\<lparr>e_unit = Str ''ug'', e_value = Num (Fin 40)\<rparr>"
              "\<lparr>e_unit = Null, e_value = Null\<rparr>"
              "\<lparr>e_unit = Str ''ug'', e_value = Num (Fin 60)\<rparr>"
              "\<lparr>e_unit = Str ''ug'', e_value = Num (Fin 10)\<rparr>"
              40 60 10 eng]
    by (simp add: qualitative_def to_double_numeral to_double_numeral_half)
qed

text \<open>
  The value need not be finite, and it can be NaN when a value is infinite (a JSON
  number such as \<open>1e999\<close> parses to Infinity), which is what the claim C3 excludes: with
  \<open>null\<close>, Infinity, -Infinity and 5 the value is NaN and no name is assigned; with
  \<open>null\<close> and three times \<open>2 ^ 1023\<close> the value is Infinity.
\<close>

theorem one_null_infinite_or_nan:
  "(\<forall>eng. aggregate eng
            [(''NO2'', \<lparr>e_unit = Null, e_value = Null\<rparr>),
             (''O3'', \<lparr>e_unit = Str ''ug'', e_value = Num NInf\<rparr>),
             (''PM10'', \<lparr>e_unit = Str ''ug'', e_value = Num PInf\<rparr>),
             (''PM2.5'', \<lparr>e_unit = Str ''ug'', e_value = Num (Fin 5)\<rparr>)]
          = Returns \<lparr>qualitativeName = None, aqi_value = NaN\<rparr>)
   \<and> (\<forall>eng. aggregate eng
            [(''NO2'', \<lparr>e_unit = Null, e_value = Null\<rparr>),
             (''O3'', \<lparr>e_unit = Str ''ug'', e_value = Num (Fin (2 ^ 1023))\<rparr>),
             (''PM10'', \<lparr>e_unit = Str ''ug'', e_value = Num (Fin (2 ^ 1023))\<rparr>),
             (''PM2.5'', \<lparr>e_unit = Str ''ug'', e_value = Num (Fin (2 ^ 1023))\<rparr>)]
          = Returns \<lparr>qualitativeName = Some ''very_high'', aqi_value = PInf\<rparr>)"
proof (intro conjI allI)
  fix eng
  show "aggregate eng
            [(''NO2'', \<lparr>e_unit = Null, e_value = Null\<rparr>),
             (''O3'', \<lparr>e_unit = Str ''ug'', e_value = Num NInf\<rparr>),
             (''PM10'', \<lparr>e_unit = Str ''ug'', e_value = Num PInf\<rparr>),
             (''PM2.5'', \<lparr>e_unit = Str ''ug'', e_value = Num (Fin 5)\<rparr>)]
          = Returns \<lparr>qualitativeName = None, aqi_value = NaN\<rparr>"
    by (simp add: aggregate_def average_def plus_op_def qualitative_def)
next
  fix eng
  let ?big = "(2::real) ^ 1023"
  have s1: "num_add (Fin 0) (Fin 0) = Fin 0" by simp
  have s2: "num_add (Fin 0) (Fin ?big) = Fin ?big"
    using big_is_double by (simp del: power_numeral)
  have s3: "num_add (Fin ?big) (Fin ?big) = PInf"
    by (simp only: num_add.simps twice_big_overflows)
  have s4: "num_add PInf (Fin ?big) = PInf" by simp
  have s5: "num_div PInf (Fin 4) = PInf" by (simp add: signed_inf_def)
  have "average eng [Null, Num (Fin ?big), Num (Fin ?big), Num (Fin ?big)] = Some PInf"
    using average_finite_or_null[of Null "Num (Fin ?big)" "Num (Fin ?big)" "Num (Fin ?big)" eng]
    by (simp add: finite_or_null_def null_as_zero_def s1 s2 s3 s4 s5
          del: num_add.simps num_div.simps power_numeral)
  then show "aggregate eng
            [(''NO2'', \<lparr>e_unit = Null, e_value = Null\<rparr>),
             (''O3'', \<lparr>e_unit = Str ''ug'', e_value = Num (Fin (2 ^ 1023))\<rparr>),
             (''PM10'', \<lparr>e_unit = Str ''ug'', e_value = Num (Fin (2 ^ 1023))\<rparr>),
             (''PM2.5'', \<lparr>e_unit = Str ''ug'', e_value = Num (Fin (2 ^ 1023))\<rparr>)]
          = Returns \<lparr>qualitativeName = Some ''very_high'', aqi_value = PInf\<rparr>"
    by (simp add: aggregate_def qualitative_def del: power_numeral)
qed

text \<open>
  C4. The sequence of overwriting checks assigns, for every number, what the mutually
  exclusive ranges of the specification assign; for NaN none of the five conditions is
  true and the name stays unset.
\<close>

theorem qualitative_eq_band_by_range:
  "qualitative v = band_by_range v \<and> qualitative NaN = None
   \<and> \<not> num_ge NaN (Fin 100) \<and> \<not> num_lt NaN (Fin 100) \<and> \<not> num_lt NaN (Fin 75)
   \<and> \<not> num_lt NaN (Fin 50) \<and> \<not> num_lt NaN (Fin 25)"
  by (cases v) (auto simp: qualitative_def band_by_range_def)

lemma undefined_gives_nan:
  "average eng [Undefined, Num (Fin a), Num (Fin b), Num (Fin c)] = Some NaN"
  by (simp add: average_def plus_op_def)

section \<open>Promise.all and the twelve calls\<close>




lemma promise_all_fulfils:
  assumes "\<forall>p \<in> set ps. \<exists>t v. p = (t, Inr v)"
  shows "promise_all ps = Inr (map (\<lambda>p. projr (snd p)) ps)"
proof -
  have "List.map_filter (\<lambda>(t, r). case r of Inl e \<Rightarrow> Some (t, e) | Inr _ \<Rightarrow> None) ps = []"
    using assms by (induction ps) (auto simp: List.map_filter_simps)
  moreover have "List.map_filter (\<lambda>(t, r). case r of Inl _ \<Rightarrow> None | Inr v \<Rightarrow> Some v) ps = map (\<lambda>p. projr (snd p)) ps"
    using assms by (induction ps) (auto simp: List.map_filter_simps)
  ultimately show ?thesis by (simp add: promise_all_def)
qed

lemma map_of_to_response_data:
  assumes "\<And>k. r_type (g k) = k"
  shows "map_of (to_response_data (map g ks)) k =
         (if k \<in> set ks then Some \<lparr>e_unit = r_unit (g k), e_value = r_value (g k)\<rparr> else None)"
proof (induction ks rule: rev_induct)
  case Nil
  then show ?case by (simp add: to_response_data_def)
next
  case (snoc x xs)
  then show ?case using assms
    by (simp add: to_response_data_def update_conv')
qed






lemma get_fulfils:
  assumes "fetch (get_url eng c k) = (t, Http st b)" "ok st"
  shows "\<exists>r. get eng fetch c k = (t, Inr r) \<and> r_type r = k"
  using assms by (simp add: get_def split: option.split)

lemma getAll_fulfils:
  assumes all: "\<forall>type \<in> set keys. \<exists>t st b. fetch (get_url eng c type) = (t, Http st b) \<and> ok st"
  shows "getAll eng fetch c = Inr (map (own_reading eng fetch c) keys)"
proof -
  let ?ps = "map (\<lambda>type. get eng fetch c type) keys"
  have each: "\<exists>t r. get eng fetch c k = (t, Inr r)" if "k \<in> set keys" for k
  proof -
    from all that obtain t st b where "fetch (get_url eng c k) = (t, Http st b)" "ok st" by blast
    then show ?thesis using get_fulfils[of fetch eng c k t st b] by blast
  qed
  have "\<forall>p \<in> set ?ps. \<exists>t v. p = (t, Inr v)"
  proof
    fix p assume "p \<in> set ?ps"
    then obtain k where "k \<in> set keys" "p = get eng fetch c k" by auto
    with each show "\<exists>t v. p = (t, Inr v)" by simp
  qed
  then have "promise_all ?ps = Inr (map (\<lambda>p. projr (snd p)) ?ps)"
    by (rule promise_all_fulfils)
  moreover have "map (\<lambda>p. projr (snd p)) ?ps = map (own_reading eng fetch c) keys"
  proof (simp, intro ballI)
    fix k assume "k \<in> set keys"
    from each[OF this] obtain t r where "get eng fetch c k = (t, Inr r)" by blast
    then show "projr (snd (get eng fetch c k)) = own_reading eng fetch c k"
      by (simp add: own_reading_def)
  qed
  ultimately show ?thesis by (simp add: getAll_def)
qed

section \<open>The query of one layer\<close>

lemma layers_of_get_url:
  "map_of (searchParams (get_url eng c t)) ''layers'' = Some (layer_param t)"
  by (simp add: get_url_def Let_def)

lemma query_layers_of_get_url:
  "map_of (searchParams (get_url eng c t)) ''query_layers'' = Some (layer_param t)"
  by (simp add: get_url_def Let_def)


lemma mocked_get_url:
  "mocked table other (get_url eng c t) =
     (case layer_param t of
        Text layer \<Rightarrow> (case map_of table layer of None \<Rightarrow> other | Some r \<Rightarrow> r)
      | _ \<Rightarrow> other)"
  by (simp add: mocked_def layers_of_get_url)

text \<open>
  The box around the centre of longitude 18 and latitude 60, operation by operation.
  \<open>Math.PI * 60\<close> falls halfway between two doubles and goes to the even one; the
  cosine of \<open>1.0471975511965976\<close> is the engine's, \<open>0.5000000000000001\<close> in the
  common ones. The box is
  \<open>[59.955084235794025, 17.910168471588047, 60.044915764205975, 18.089831528411953]\<close>.
\<close>

lemma ex_pi_lat: "num_mul Math_PI (Fin 60) = Fin (6632097892526662 / 2 ^ 45)"
  using to_double_round[of "884279719003555 / 281474976710656 * 60" 45 6632097892526662]
  by (simp add: Math_PI_def round_even_def Let_def)

lemma ex_radians: "num_div (Fin (6632097892526662 / 2 ^ 45)) (Fin 180) = Fin (4716158501352293 / 2 ^ 52)"
  using to_double_round[of "6632097892526662 / 2 ^ 45 / 180" 52 4716158501352293]
  by (simp add: round_even_def Let_def)

lemma ex_r_cos: "num_mul (Fin 6378137) (Fin (4503599627370497 / 2 ^ 53)) = Fin (6848472456101890 / 2 ^ 31)"
  using to_double_round[of "6378137 * (4503599627370497 / 2 ^ 53)" 31 6848472456101890]
  by (simp add: round_even_def Let_def)

lemma ex_dLat_NW: "num_div (Fin (- 5000)) (Fin 6378137) = Fin (- 7230459330722103 / 2 ^ 63)"
  using to_double_round[of "- 5000 / 6378137" 63 "- 7230459330722103"]
  by (simp add: round_even_def Let_def)

lemma ex_dLon_NW: "num_div (Fin (- 5000)) (Fin (6848472456101890 / 2 ^ 31)) = Fin (- 7230459330722100 / 2 ^ 62)"
  using to_double_round[of "- 5000 / (6848472456101890 / 2 ^ 31)" 62 "- 7230459330722100"]
  by (simp add: round_even_def Let_def)

lemma ex_dLat_deg_NW: "num_mul (Fin (- 7230459330722103 / 2 ^ 63)) (Fin 180) = Fin (- 5083916716913979 / 2 ^ 55)"
  using to_double_round[of "- 7230459330722103 / 2 ^ 63 * 180" 55 "- 5083916716913979"]
  by (simp add: round_even_def Let_def)

lemma ex_dLat_pi_NW: "num_div (Fin (- 5083916716913979 / 2 ^ 55)) Math_PI = Fin (- 6473043806115038 / 2 ^ 57)"
  using to_double_round[of "- 5083916716913979 / 2 ^ 55 / (884279719003555 / 281474976710656)" 57 "- 6473043806115038"]
  by (simp add: Math_PI_def round_even_def Let_def)

lemma ex_dLon_deg_NW: "num_mul (Fin (- 7230459330722100 / 2 ^ 62)) (Fin 180) = Fin (- 5083916716913977 / 2 ^ 54)"
  using to_double_round[of "- 7230459330722100 / 2 ^ 62 * 180" 54 "- 5083916716913977"]
  by (simp add: round_even_def Let_def)

lemma ex_dLon_pi_NW: "num_div (Fin (- 5083916716913977 / 2 ^ 54)) Math_PI = Fin (- 6473043806115035 / 2 ^ 56)"
  using to_double_round[of "- 5083916716913977 / 2 ^ 54 / (884279719003555 / 281474976710656)" 56 "- 6473043806115035"]
  by (simp add: Math_PI_def round_even_def Let_def)

lemma ex_lat_NW: "num_add (Fin 60) (Fin (- 6473043806115038 / 2 ^ 57)) = Fin (8437927969477771 / 2 ^ 47)"
  using to_double_round[of "60 + - 6473043806115038 / 2 ^ 57" 47 8437927969477771]
  by (simp add: round_even_def Let_def)

lemma ex_long_NW: "num_add (Fin 18) (Fin (- 6473043806115035 / 2 ^ 56)) = Fin (5041264253424171 / 2 ^ 48)"
  using to_double_round[of "18 + - 6473043806115035 / 2 ^ 56" 48 5041264253424171]
  by (simp add: round_even_def Let_def)

lemma ex_dLat_SE: "num_div (Fin 5000) (Fin 6378137) = Fin (7230459330722103 / 2 ^ 63)"
  using to_double_round[of "5000 / 6378137" 63 "7230459330722103"]
  by (simp add: round_even_def Let_def)

lemma ex_dLon_SE: "num_div (Fin 5000) (Fin (6848472456101890 / 2 ^ 31)) = Fin (7230459330722100 / 2 ^ 62)"
  using to_double_round[of "5000 / (6848472456101890 / 2 ^ 31)" 62 "7230459330722100"]
  by (simp add: round_even_def Let_def)

lemma ex_dLat_deg_SE: "num_mul (Fin (7230459330722103 / 2 ^ 63)) (Fin 180) = Fin (5083916716913979 / 2 ^ 55)"
  using to_double_round[of "7230459330722103 / 2 ^ 63 * 180" 55 "5083916716913979"]
  by (simp add: round_even_def Let_def)

lemma ex_dLat_pi_SE: "num_div (Fin (5083916716913979 / 2 ^ 55)) Math_PI = Fin (6473043806115038 / 2 ^ 57)"
  using to_double_round[of "5083916716913979 / 2 ^ 55 / (884279719003555 / 281474976710656)" 57 "6473043806115038"]
  by (simp add: Math_PI_def round_even_def Let_def)

lemma ex_dLon_deg_SE: "num_mul (Fin (7230459330722100 / 2 ^ 62)) (Fin 180) = Fin (5083916716913977 / 2 ^ 54)"
  using to_double_round[of "7230459330722100 / 2 ^ 62 * 180" 54 "5083916716913977"]
  by (simp add: round_even_def Let_def)

lemma ex_dLon_pi_SE: "num_div (Fin (5083916716913977 / 2 ^ 54)) Math_PI = Fin (6473043806115035 / 2 ^ 56)"
  using to_double_round[of "5083916716913977 / 2 ^ 54 / (884279719003555 / 281474976710656)" 56 "6473043806115035"]
  by (simp add: Math_PI_def round_even_def Let_def)

lemma ex_lat_SE: "num_add (Fin 60) (Fin (6473043806115038 / 2 ^ 57)) = Fin (8450570633161589 / 2 ^ 47)"
  using to_double_round[of "60 + 6473043806115038 / 2 ^ 57" 47 8450570633161589]
  by (simp add: round_even_def Let_def)

lemma ex_long_SE: "num_add (Fin 18) (Fin (6473043806115035 / 2 ^ 56)) = Fin (5091834908159445 / 2 ^ 48)"
  using to_double_round[of "18 + 6473043806115035 / 2 ^ 56" 48 5091834908159445]
  by (simp add: round_even_def Let_def)

lemma bbox_example:
  assumes c: "math_cos eng (Fin (4716158501352293 / 2 ^ 52)) = Fin (4503599627370497 / 2 ^ 53)"
  shows "bbox eng (Fin 18, Fin 60) =
           [Fin (8437927969477771 / 2 ^ 47), Fin (5041264253424171 / 2 ^ 48),
            Fin (8450570633161589 / 2 ^ 47), Fin (5091834908159445 / 2 ^ 48)]"
  unfolding bbox_def offset_def Let_def
  by (simp only: prod.case num_neg.simps ex_pi_lat ex_radians c ex_r_cos
      ex_dLat_NW ex_dLon_NW ex_dLat_deg_NW ex_dLat_pi_NW ex_dLon_deg_NW ex_dLon_pi_NW ex_lat_NW ex_long_NW
      ex_dLat_SE ex_dLon_SE ex_dLat_deg_SE ex_dLat_pi_SE ex_dLon_deg_SE ex_dLon_pi_SE ex_lat_SE ex_long_SE)


text \<open>
  C10 (as amended). For a type that is no key of the catalog the builder does not
  fail: the lookup gives \<open>undefined\<close> (or, for a name of \<open>Object.prototype\<close>, the
  inherited member), the query is built with that as \<open>layers\<close> and \<open>query_layers\<close>, it
  is sent, and a successful answer is turned into a reading of that type.
\<close>

theorem unknown_type_is_queried:
  assumes "type \<notin> set keys" "fetch (get_url eng c type) = (t, Http st b)" "ok st"
  shows "map_of (searchParams (get_url eng c type)) ''layers''
           = Some (if type \<in> set object_prototype_names then Inherited type else Text ''undefined'')
       \<and> map_of (searchParams (get_url eng c type)) ''query_layers''
           = Some (if type \<in> set object_prototype_names then Inherited type else Text ''undefined'')
       \<and> (\<exists>r. get eng fetch c type = (t, Inr r) \<and> r_type r = type)"
proof -
  have "map_of atmosphereTypeToLayer type = None"
    using assms(1) by (simp add: keys_def map_of_eq_None_iff)
  then have "layer_param type
               = (if type \<in> set object_prototype_names then Inherited type else Text ''undefined'')"
    by (simp add: layer_param_def)
  then show ?thesis
    using get_fulfils[of fetch eng c type t st b] assms(2,3)
    by (simp add: layers_of_get_url query_layers_of_get_url)
qed

theorem unknown_type_is_queried_witness:
  "\<forall>eng.
     map_of (searchParams (get_url eng (Fin 18.125, Fin 59.25) ''toString'')) ''layers''
       = Some (Inherited ''toString'')
     \<and> (\<exists>r. get eng (mocked [] (3, Http 200 (Some (probes (Num (Fin 1)) (Str ''ug'')))))
               (Fin 18.125, Fin 59.25) ''toString''
            = (3, Inr r) \<and> r_type r = ''toString'')"
proof
  fix eng
  let ?net = "mocked [] (3, Http 200 (Some (probes (Num (Fin 1)) (Str ''ug''))))"
  have a: "''toString'' \<notin> set keys" by (simp add: keys_def atmosphereTypeToLayer_def)
  have b: "?net (get_url eng (Fin 18.125, Fin 59.25) ''toString'')
             = (3, Http 200 (Some (probes (Num (Fin 1)) (Str ''ug''))))"
    by (simp add: mocked_get_url layer_param_def split: param.split)
  have c: "ok 200" by (simp add: ok_def)
  have d: "''toString'' \<in> set object_prototype_names" by (simp add: object_prototype_names_def)
  show "map_of (searchParams (get_url eng (Fin 18.125, Fin 59.25) ''toString'')) ''layers''
       = Some (Inherited ''toString'')
     \<and> (\<exists>r. get eng (mocked [] (3, Http 200 (Some (probes (Num (Fin 1)) (Str ''ug'')))))
               (Fin 18.125, Fin 59.25) ''toString''
            = (3, Inr r) \<and> r_type r = ''toString'')"
    using unknown_type_is_queried [of "''toString''" ?net eng "(Fin 18.125, Fin 59.25)" 3 200
                 "Some (probes (Num (Fin 1)) (Str ''ug''))"] a b c d
    by simp
qed

text \<open>
  For the type \<open>Radon\<close>, which the catalog does not have, \<open>get\<close> fulfils with a reading
  and the query carries \<open>layers=undefined\<close>: the builder has not failed, which is what
  the claim C10 states.
\<close>

theorem unknown_type_does_not_fail:
  "\<forall>eng.
     get eng (mocked [] (0, Http 200 None)) (Fin 18.125, Fin 59.25) ''Radon''
       = (0, Inr \<lparr>r_type = ''Radon'', r_value = Null, r_unit = Null\<rparr>)
     \<and> map_of (searchParams (get_url eng (Fin 18.125, Fin 59.25) ''Radon'')) ''layers''
         = Some (Text ''undefined'')"
  by (simp add: get_def mocked_get_url layers_of_get_url layer_param_def atmosphereTypeToLayer_def
        object_prototype_names_def ok_def)

section \<open>The readings of the twelve layers\<close>

lemma own_reading_type: "r_type (own_reading eng fetch c k) = k"
proof (cases "snd (get eng fetch c k)")
  case (Inl e)
  then show ?thesis by (simp add: own_reading_def)
next
  case (Inr r)
  obtain t res where f: "fetch (get_url eng c k) = (t, res)" by (cases "fetch (get_url eng c k)")
  show ?thesis
  proof (cases res)
    case (Transport_failure m)
    with f Inr show ?thesis by (simp add: get_def)
  next
    case (Http st b)
    show ?thesis
    proof (cases "ok st")
      case True
      with f Http get_fulfils[of fetch eng c k t st b] show ?thesis
        by (auto simp: own_reading_def)
    next
      case False
      with f Http Inr show ?thesis by (simp add: get_def)
    qed
  qed
qed


lemma wellformed_reading:
  assumes "fetch (get_url eng c k) = (t, Http st (Some json))" "ok st"
    "probe_member json ''Data'' = Some d" "probe_member json ''Unit'' = Some u"
  shows "get eng fetch c k = (t, Inr \<lparr>r_type = k, r_value = d, r_unit = u\<rparr>)"
  using assms by (simp add: get_def)

lemma length_keys: "length keys = 12"
  by (simp add: keys_def atmosphereTypeToLayer_def)

lemma designated_keys:
  "''NO2'' \<in> set keys" "''PM10'' \<in> set keys" "''O3'' \<in> set keys" "''PM2.5'' \<in> set keys"
  by (simp_all add: keys_def atmosphereTypeToLayer_def)


lemma entry_of_own_reading:
  assumes "j \<in> set keys"
  shows "map_of (to_response_data (map (own_reading eng fetch c) keys)) j =
           Some \<lparr>e_unit = r_unit (own_reading eng fetch c j),
                 e_value = r_value (own_reading eng fetch c j)\<rparr>"
  using assms map_of_to_response_data[of "own_reading eng fetch c" keys j] own_reading_type
  by simp


section \<open>Conversions never throw on primitive values\<close>

lemma to_primitive_primitive: "primitive v \<Longrightarrow> \<exists>r. to_primitive eng v = Some r"
  by (cases v) (simp_all add: primitive_def)

lemma reduce_plus_primitive:
  "\<forall>v \<in> set vs. primitive v \<Longrightarrow> \<exists>s. reduce_plus eng p vs = Some s"
proof (induction vs arbitrary: p)
  case Nil
  then show ?case by simp
next
  case (Cons v vs)
  then obtain r where "to_primitive eng v = Some r"
    using to_primitive_primitive[of v eng] by auto
  then obtain p' where "plus_op eng p v = Some p'" by (simp add: plus_op_def)
  with Cons show ?case by simp
qed

lemma aggregate_primitive:
  assumes "map_of rd ''NO2'' = Some no2" "map_of rd ''PM10'' = Some pm10"
    "map_of rd ''O3'' = Some o3" "map_of rd ''PM2.5'' = Some pm25"
    and "primitive (e_value no2)" "primitive (e_value pm10)"
        "primitive (e_value o3)" "primitive (e_value pm25)"
  shows "\<exists>aqi. aggregate eng rd = Returns aqi"
proof -
  have "\<exists>s. reduce_plus eng (PNum (Fin 0)) [e_value no2, e_value pm10, e_value o3, e_value pm25] = Some s"
    by (rule reduce_plus_primitive) (simp add: assms(5-8))
  then obtain s where "reduce_plus eng (PNum (Fin 0)) [e_value no2, e_value pm10, e_value o3, e_value pm25] = Some s"
    by blast
  then have "\<exists>v. average eng [e_value no2, e_value pm10, e_value o3, e_value pm25] = Some v"
    by (simp add: average_def)
  then show ?thesis using assms(1-4) by (auto simp: aggregate_def)
qed

section \<open>Reading the coordinates\<close>

lemma num_neg_not_nan: "m \<noteq> NaN \<Longrightarrow> num_neg m \<noteq> NaN"
  by (cases m) simp_all

lemma parseFloat_nan_iff: "parseFloat s = NaN \<longleftrightarrow> \<not> has_numeric_prefix s"
proof (cases "prefix ''Infinity'' (unsigned_part s)")
  case True
  then show ?thesis by (simp add: parseFloat_def has_numeric_prefix_def Let_def signed_inf_def)
next
  case False
  show ?thesis
  proof (cases "unsigned_part s")
    case Nil
    with False show ?thesis by (simp add: parseFloat_def has_numeric_prefix_def Let_def signed_inf_def)
  next
    case (Cons c r)
    show ?thesis
    proof (cases "is_digit c")
      case True
      with False Cons show ?thesis
        by (simp add: parseFloat_def has_numeric_prefix_def Let_def num_neg_not_nan signed_inf_def)
    next
      case nd: False
      show ?thesis
      proof (cases "c = CHR ''.''")
        case dot: True
        show ?thesis
        proof (cases r)
          case Nil
          with False Cons nd dot show ?thesis
            by (simp add: parseFloat_def has_numeric_prefix_def Let_def signed_inf_def)
        next
          case (Cons d r')
          with False \<open>unsigned_part s = c # r\<close> nd dot show ?thesis
            by (simp add: parseFloat_def has_numeric_prefix_def Let_def num_neg_not_nan signed_inf_def)
        qed
      next
        case False
        with \<open>\<not> prefix ''Infinity'' (unsigned_part s)\<close> Cons nd show ?thesis
          by (simp add: parseFloat_def has_numeric_prefix_def Let_def signed_inf_def)
      qed
    qed
  qed
qed

lemma no_prefix_null: "\<not> has_numeric_prefix ''null''"
  by (simp add: has_numeric_prefix_def unsigned_part_def is_space_def is_digit_def)

lemma prefix_lat: "has_numeric_prefix ''59.3''"
  by (simp add: has_numeric_prefix_def unsigned_part_def is_space_def is_digit_def)

lemma prefix_lng: "has_numeric_prefix ''18.1''"
  by (simp add: has_numeric_prefix_def unsigned_part_def is_space_def is_digit_def)


section \<open>The responses of the listener\<close>

lemma handle_valid:
  assumes "parseFloat (search_param req ''lat'') = lat" "lat \<noteq> NaN"
    and "parseFloat (search_param req ''lng'') = lng" "lng \<noteq> NaN"
  shows "handle eng fetch req =
           (case getAll eng fetch (lng, lat) of
              Inl e \<Rightarrow> Throws e
            | Inr atmosphereData \<Rightarrow>
               (case aggregate eng (to_response_data atmosphereData) of
                  Throws e \<Rightarrow> Throws e
                | Returns aqi \<Rightarrow>
                    Returns
                      (new_response
                         (Json (AList.update ''aqi'' (Index aqi)
                                  (map (\<lambda>(name, e). (name, Layer e))
                                     (to_response_data atmosphereData)))
                            (if origin req = None then Some 4 else None))
                         200 [(''content-type'', Literal ''application/json'')])))"
  using assms by (simp add: handle_def Let_def split: sum.split outcome.split)

lemma handle_returns:
  "handle eng fetch req = Returns r \<Longrightarrow>
     status r = 200 \<and> headers r = [(''content-type'', Literal ''application/json'')]"
  by (auto simp: handle_def Let_def new_response_def split: if_splits sum.splits outcome.splits)

lemma listener_returns:
  assumes "handle eng fetch req = Returns r0"
  shows "listener eng fetch now_d now_hh req =
           headers_set ''Access-Control-Request-Method'' (Literal ''GET'')
             (headers_set ''Access-Control-Allow-Origin'' (Literal ''*'')
               (headers_set ''Expires'' (Utc_string (expiry now_d now_hh)) r0))"
  using assms by (simp add: listener_def Let_def expiry_def)

lemma listener_throws:
  assumes "handle eng fetch req = Throws (Message msg)"
  shows "listener eng fetch now_d now_hh req =
           \<lparr>status = 400,
            headers = [(''content-type'', Literal ''text/plain;charset=UTF-8'')],
            content = Plain msg\<rparr>"
  using assms by (simp add: listener_def errorResponse_def new_response_def message_def)

lemma listener_status: "status (listener eng fetch now_d now_hh req) = 200 \<or>
                        status (listener eng fetch now_d now_hh req) = 400"
proof (cases "handle eng fetch req")
  case (Returns r0)
  with handle_returns[OF Returns] listener_returns[OF Returns, of now_d now_hh]
  show ?thesis by (simp add: headers_set_def)
next
  case (Throws e)
  then show ?thesis by (simp add: listener_def errorResponse_def new_response_def)
qed

text \<open>The success path, for a request with valid coordinates.\<close>

lemma handle_success:
  assumes valid: "parseFloat (search_param req ''lat'') = lat" "lat \<noteq> NaN"
      "parseFloat (search_param req ''lng'') = lng" "lng \<noteq> NaN"
    and all: "\<forall>type \<in> set keys. \<exists>t st b. fetch (get_url eng (lng, lat) type) = (t, Http st b) \<and> ok st"
    and prim: "\<forall>j \<in> {''NO2'', ''PM10'', ''O3'', ''PM2.5''}.
                 primitive (r_value (own_reading eng fetch (lng, lat) j))"
  shows "\<exists>aqi. handle eng fetch req =
           Returns
             (new_response
                (Json (AList.update ''aqi'' (Index aqi)
                         (map (\<lambda>(name, e). (name, Layer e))
                            (to_response_data (map (own_reading eng fetch (lng, lat)) keys))))
                   (if origin req = None then Some 4 else None))
                200 [(''content-type'', Literal ''application/json'')])"
proof -
  let ?rd = "to_response_data (map (own_reading eng fetch (lng, lat)) keys)"
  have g: "getAll eng fetch (lng, lat) = Inr (map (own_reading eng fetch (lng, lat)) keys)"
    using all by (rule getAll_fulfils)
  have "\<exists>aqi. aggregate eng ?rd = Returns aqi"
    by (rule aggregate_primitive[OF entry_of_own_reading[OF designated_keys(1)]
          entry_of_own_reading[OF designated_keys(2)] entry_of_own_reading[OF designated_keys(3)]
          entry_of_own_reading[OF designated_keys(4)]]) (use prim in simp_all)
  then obtain aqi where "aggregate eng ?rd = Returns aqi" by blast
  then show ?thesis using handle_valid[OF valid, of eng fetch] g by auto
qed

lemma next_hour_always: "nextHour now = (now div 3600000) mod 24 + 1"
  by (simp add: nextHour_def getUTCHours_def Let_def)

lemma expires_seconds:
  assumes "now_d div 86400000 = now_hh div 86400000"
  shows "expiry now_d now_hh = (now_hh div 3600000 + 1) * 3600"
proof -
  define q where "q = now_hh div 3600000"
  define h where "h = q + 1"
  define m where "m = now_d mod 3600000"
  have day: "now_d div 86400000 = q div 24"
    using assms by (simp add: q_def div_mult2_eq[symmetric])
  have m: "0 \<le> m" "m < 3600000" by (simp_all add: m_def)
  have d1: "setUTCHours now_d (nextHour now_hh) = h * 3600000 + m"
  proof -
    define a b where "a = q div 24" and "b = q mod 24"
    have "q = 24 * a + b" by (simp add: a_def b_def)
    then have "a * 86400000 + (b + 1) * 3600000 = h * 3600000"
      by (simp add: algebra_simps h_def)
    then have "(q div 24) * 86400000 + (q mod 24 + 1) * 3600000 = h * 3600000"
      by (simp only: a_def b_def)
    then show ?thesis
      by (simp add: setUTCHours_def next_hour_always day q_def[symmetric] m_def)
  qed
  have d1div: "(h * 3600000 + m) div 3600000 = h" using m by simp
  have d2: "setUTCMinutes (h * 3600000 + m) 0 = h * 3600000 + m mod 60000"
  proof -
    have "h * 3600000 = 60000 * (h * 60)" by simp
    then have "(h * 3600000 + m) mod 60000 = m mod 60000"
      by (metis mod_mult_self4)
    then show ?thesis by (simp add: setUTCMinutes_def d1div)
  qed
  define n where "n = m mod 60000"
  have n: "0 \<le> n" "n < 60000" by (simp_all add: n_def)
  have d2div: "(h * 3600000 + n) div 60000 = h * 60"
  proof -
    have "h * 3600000 = 60000 * (h * 60)" by simp
    then have "(h * 3600000 + n) div 60000 = h * 60 + n div 60000"
      by (metis div_mult_self4 zero_neq_numeral)
    with n show ?thesis by simp
  qed
  define r where "r = (h * 3600000 + n) mod 1000"
  have r: "0 \<le> r" "r < 1000" by (simp_all add: r_def)
  have d3: "setUTCSeconds (h * 3600000 + n) 0 = h * 3600000 + r"
    by (simp add: setUTCSeconds_def d2div r_def)
  have "(h * 3600000 + r) div 1000 = h * 3600"
  proof -
    have "h * 3600000 = 1000 * (h * 3600)" by simp
    then have "(h * 3600000 + r) div 1000 = h * 3600 + r div 1000"
      by (metis div_mult_self4 zero_neq_numeral)
    with r show ?thesis by simp
  qed
  then show ?thesis
    unfolding expiry_def by (simp only: d1 d2 n_def[symmetric] d3) (simp add: h_def q_def)
qed




text \<open>The examples: a network that answers every query alike, and two coordinates.\<close>

lemma steady_network:
  "mocked [] (5, Http 200 (Some (probes (Num (Fin 12)) (Str ''ug'')))) u
     = (5, Http 200 (Some (probes (Num (Fin 12)) (Str ''ug''))))"
  by (simp add: mocked_def split: option.split param.split)

lemma probes_members:
  "probe_member (probes d u) ''Data'' = Some d" "probe_member (probes d u) ''Unit'' = Some u"
  by (simp_all add: probe_member_def probe_value_def probes_def)

lemma steady_reading:
  "own_reading eng (mocked [] (5, Http 200 (Some (probes (Num (Fin 12)) (Str ''ug''))))) c k
     = \<lparr>r_type = k, r_value = Num (Fin 12), r_unit = Str ''ug''\<rparr>"
  using wellformed_reading[of "mocked [] (5, Http 200 (Some (probes (Num (Fin 12)) (Str ''ug''))))"
          eng c k 5 200 "probes (Num (Fin 12)) (Str ''ug'')" "Num (Fin 12)" "Str ''ug''"]
  by (simp add: steady_network probes_members own_reading_def ok_def)

lemma valid_lat: "parseFloat ''59.3'' \<noteq> NaN" by (simp add: parseFloat_nan_iff prefix_lat)
lemma valid_lng: "parseFloat ''18.1'' \<noteq> NaN" by (simp add: parseFloat_nan_iff prefix_lng)

lemma steady_handle:
  assumes "parseFloat (search_param req ''lat'') \<noteq> NaN" "parseFloat (search_param req ''lng'') \<noteq> NaN"
  shows "\<exists>r0. handle eng (mocked [] (5, Http 200 (Some (probes (Num (Fin 12)) (Str ''ug''))))) req
               = Returns r0"
proof -
  let ?net = "mocked [] (5, Http 200 (Some (probes (Num (Fin 12)) (Str ''ug''))))"
  let ?lat = "parseFloat (search_param req ''lat'')"
  let ?lng = "parseFloat (search_param req ''lng'')"
  have all: "\<forall>type \<in> set keys. \<exists>t st b. ?net (get_url eng (?lng, ?lat) type) = (t, Http st b) \<and> ok st"
    by (simp add: steady_network ok_def)
  have prim: "\<forall>j \<in> {''NO2'', ''PM10'', ''O3'', ''PM2.5''}.
                 primitive (r_value (own_reading eng ?net (?lng, ?lat) j))"
    by (simp add: steady_reading primitive_def)
  from handle_success[OF refl assms(1) refl assms(2) all prim] show ?thesis by blast
qed









text \<open>
  C9 (as amended). Every response with the status 200 has the headers
  \<open>content-type: application/json\<close>, \<open>Access-Control-Allow-Origin: *\<close>,
  \<open>Access-Control-Request-Method: GET\<close> and \<open>Expires\<close>; when the two readings of the
  clock fall on the same UTC day, \<open>Expires\<close> is the start of the UTC hour that follows
  the later reading.
\<close>

theorem success_response_headers:
  assumes "status (listener eng fetch now_d now_hh req) = 200"
  shows "map_of (headers (listener eng fetch now_d now_hh req)) ''content-type''
           = Some (Literal ''application/json'')
       \<and> map_of (headers (listener eng fetch now_d now_hh req)) ''Access-Control-Allow-Origin''
           = Some (Literal ''*'')
       \<and> map_of (headers (listener eng fetch now_d now_hh req)) ''Access-Control-Request-Method''
           = Some (Literal ''GET'')
       \<and> (\<exists>s. map_of (headers (listener eng fetch now_d now_hh req)) ''Expires''
                 = Some (Utc_string s))
       \<and> (now_d div 86400000 = now_hh div 86400000 \<longrightarrow>
            map_of (headers (listener eng fetch now_d now_hh req)) ''Expires''
              = Some (Utc_string ((now_hh div 3600000 + 1) * 3600)))"
proof (cases "handle eng fetch req")
  case (Returns r0)
  from handle_returns[OF Returns]
  have r0: "headers r0 = [(''content-type'', Literal ''application/json'')]" by simp
  have h: "headers (listener eng fetch now_d now_hh req) =
             [(''content-type'', Literal ''application/json''),
              (''Expires'', Utc_string (expiry now_d now_hh)),
              (''Access-Control-Allow-Origin'', Literal ''*''),
              (''Access-Control-Request-Method'', Literal ''GET'')]"
    using listener_returns[OF Returns, of now_d now_hh] r0 by (simp add: headers_set_def)
  show ?thesis using expires_seconds[of now_d now_hh] by (simp add: h)
next
  case (Throws e)
  then have "status (listener eng fetch now_d now_hh req) = 400"
    by (simp add: listener_def errorResponse_def new_response_def)
  with assms show ?thesis by simp
qed

theorem success_response_headers_witness:
  "\<forall>eng.
     status (listener eng (mocked [] (5, Http 200 (Some (probes (Num (Fin 12)) (Str ''ug'')))))
               1700000000000 1700000000000
               \<lparr>query = [(''lat'', ''59.3''), (''lng'', ''18.1'')], origin = None\<rparr>) = 200
     \<and> map_of (headers (listener eng (mocked [] (5, Http 200 (Some (probes (Num (Fin 12)) (Str ''ug'')))))
               1700000000000 1700000000000
               \<lparr>query = [(''lat'', ''59.3''), (''lng'', ''18.1'')], origin = None\<rparr>))
          ''Access-Control-Allow-Origin'' = Some (Literal ''*'')
     \<and> map_of (headers (listener eng (mocked [] (5, Http 200 (Some (probes (Num (Fin 12)) (Str ''ug'')))))
               1700000000000 1700000000000
               \<lparr>query = [(''lat'', ''59.3''), (''lng'', ''18.1'')], origin = None\<rparr>))
          ''Expires'' = Some (Utc_string 1700002800)"
proof
  fix eng
  let ?net = "mocked [] (5, Http 200 (Some (probes (Num (Fin 12)) (Str ''ug''))))"
  let ?req = "\<lparr>query = [(''lat'', ''59.3''), (''lng'', ''18.1'')], origin = None\<rparr>"
  have "\<exists>r0. handle eng ?net ?req = Returns r0"
    by (rule steady_handle) (simp_all add: search_param_def valid_lat valid_lng)
  then obtain r0 where h: "handle eng ?net ?req = Returns r0" by blast
  from handle_returns[OF h] listener_returns[OF h, of 1700000000000 1700000000000]
  have st: "status (listener eng ?net 1700000000000 1700000000000 ?req) = 200"
    by (simp add: headers_set_def)
  have day: "(1700000000000::int) div 86400000 = 1700000000000 div 86400000" by simp
  from success_response_headers [OF st] day st
  show "status (listener eng ?net 1700000000000 1700000000000 ?req) = 200
     \<and> map_of (headers (listener eng ?net 1700000000000 1700000000000 ?req))
          ''Access-Control-Allow-Origin'' = Some (Literal ''*'')
     \<and> map_of (headers (listener eng ?net 1700000000000 1700000000000 ?req))
          ''Expires'' = Some (Utc_string 1700002800)"
    by simp
qed

text \<open>
  The response to a request without \<open>lat\<close> has the status 400, a text content type
  and none of the three other headers: not every response has them, which is what the
  claim C9 states. And when midnight falls between the two readings of the clock, the
  \<open>Expires\<close> of a response with the status 200 is the second hour of the day of the
  first reading, which is in the past.
\<close>

theorem error_response_lacks_headers:
  "(\<forall>eng. listener eng (mocked [] (0, Http 200 None)) 0 0 \<lparr>query = [], origin = None\<rparr>
     = \<lparr>status = 400,
        headers = [(''content-type'', Literal ''text/plain;charset=UTF-8'')],
        content = Plain latitude_message\<rparr>)
   \<and> (\<forall>eng.
        status (listener eng (mocked [] (5, Http 200 (Some (probes (Num (Fin 12)) (Str ''ug'')))))
                  86399999 86400000
                  \<lparr>query = [(''lat'', ''59.3''), (''lng'', ''18.1'')], origin = None\<rparr>) = 200
        \<and> map_of (headers (listener eng
                     (mocked [] (5, Http 200 (Some (probes (Num (Fin 12)) (Str ''ug'')))))
                     86399999 86400000
                     \<lparr>query = [(''lat'', ''59.3''), (''lng'', ''18.1'')], origin = None\<rparr>))
             ''Expires'' = Some (Utc_string 3600))"
proof -
  have a: "listener eng (mocked [] (0, Http 200 None)) 0 0 \<lparr>query = [], origin = None\<rparr>
     = \<lparr>status = 400,
        headers = [(''content-type'', Literal ''text/plain;charset=UTF-8'')],
        content = Plain latitude_message\<rparr>" for eng
  proof (rule listener_throws)
    show "handle eng (mocked [] (0, Http 200 None)) \<lparr>query = [], origin = None\<rparr>
          = Throws (Message latitude_message)"
      by (simp add: handle_def search_param_def parseFloat_nan_iff no_prefix_null)
  qed
  have b: "status (listener eng (mocked [] (5, Http 200 (Some (probes (Num (Fin 12)) (Str ''ug'')))))
                  86399999 86400000
                  \<lparr>query = [(''lat'', ''59.3''), (''lng'', ''18.1'')], origin = None\<rparr>) = 200
        \<and> map_of (headers (listener eng
                     (mocked [] (5, Http 200 (Some (probes (Num (Fin 12)) (Str ''ug'')))))
                     86399999 86400000
                     \<lparr>query = [(''lat'', ''59.3''), (''lng'', ''18.1'')], origin = None\<rparr>))
             ''Expires'' = Some (Utc_string 3600)" for eng
  proof -
    let ?net = "mocked [] (5, Http 200 (Some (probes (Num (Fin 12)) (Str ''ug''))))"
    let ?req = "\<lparr>query = [(''lat'', ''59.3''), (''lng'', ''18.1'')], origin = None\<rparr>"
    have "\<exists>r0. handle eng ?net ?req = Returns r0"
      by (rule steady_handle) (simp_all add: search_param_def valid_lat valid_lng)
    then obtain r0 where h: "handle eng ?net ?req = Returns r0" by blast
    have e: "expiry 86399999 86400000 = 3600"
      by (simp add: expiry_def setUTCSeconds_def setUTCMinutes_def setUTCHours_def nextHour_def
            getUTCHours_def)
    from handle_returns[OF h] listener_returns[OF h, of 86399999 86400000] e
    show ?thesis by (simp add: headers_set_def)
  qed
  from a b show ?thesis by blast
qed

end
